theory Spec2Isabelle
  imports Main
begin

section \<open>Coordination: the in-memory lock service\<close>

text \<open>
  \<^verbatim>\<open>InMemoryService\<close> keeps its locks in a \<^verbatim>\<open>sync.Map\<close> keyed by the identifier
  \<^verbatim>\<open>system + "_" + collection\<close>. The map is shared with other goroutines, which may
  store or delete keys while \<^verbatim>\<open>lockWithRetry\<close> sleeps: \<open>others k\<close> is what they do to
  the map during the sleep that follows the attempt made with \<open>retryCount = k\<close>.
  The third component of the result counts the calls of \<^verbatim>\<open>time.Sleep(time.Second)\<close>.
\<close>

datatype lock_error = AlreadyLocked string string

type_synonym lock_result = "(lock_error + string) \<times> string set \<times> nat"

definition getIdentifier :: "string \<Rightarrow> string \<Rightarrow> string" where
  "getIdentifier system collection = system @ ''_'' @ collection"

function lockWithRetry ::
  "(nat \<Rightarrow> string set \<Rightarrow> string set) \<Rightarrow> string \<Rightarrow> string \<Rightarrow> nat \<Rightarrow> string set \<Rightarrow> lock_result"
where
  "lockWithRetry others system collection retryCount locks =
     (if getIdentifier system collection \<in> locks then
        (if retryCount \<ge> 3 then (Inl (AlreadyLocked system collection), locks, 0)
         else (case lockWithRetry others system collection (retryCount + 1) (others retryCount locks) of
                 (r, locks', slept) \<Rightarrow> (r, locks', slept + 1)))
      else (Inr (getIdentifier system collection), insert (getIdentifier system collection) locks, 0))"
  by pat_completeness auto
termination
  by (relation "measure (\<lambda>(others, system, collection, retryCount, locks). 3 - retryCount)") auto

declare lockWithRetry.simps [simp del]

definition Lock :: "(nat \<Rightarrow> string set \<Rightarrow> string set) \<Rightarrow> string \<Rightarrow> string \<Rightarrow> string set \<Rightarrow> lock_result" where
  "Lock others system collection locks = lockWithRetry others system collection 0 locks"

definition TryLock :: "(nat \<Rightarrow> string set \<Rightarrow> string set) \<Rightarrow> string \<Rightarrow> string \<Rightarrow> string set \<Rightarrow> lock_result" where
  "TryLock others system collection locks = lockWithRetry others system collection 3 locks"

definition Unlock :: "string \<Rightarrow> string set \<Rightarrow> string set" where
  "Unlock identifier locks = locks - {identifier}"

definition IsLocked :: "string \<Rightarrow> string \<Rightarrow> string set \<Rightarrow> bool" where
  "IsLocked system collection locks \<longleftrightarrow> getIdentifier system collection \<in> locks"

text \<open>The state of the lock map at the attempt made with \<open>retryCount = k\<close>, when every
  earlier attempt of a call that started at \<open>retryCount = 0\<close> found the key present.\<close>

fun locks_at :: "(nat \<Rightarrow> string set \<Rightarrow> string set) \<Rightarrow> string set \<Rightarrow> nat \<Rightarrow> string set" where
  "locks_at others locks 0 = locks"
| "locks_at others locks (Suc k) = others k (locks_at others locks k)"


section \<open>SQL adapter (adapters/mysql.go): bulk store in a transaction\<close>

text \<open>
  A row is a Go \<^verbatim>\<open>map[string]interface{}\<close>; reading a column the row does not have
  yields \<^verbatim>\<open>nil\<close>, which is bound as SQL \<open>Null\<close>. A table is the adapter's \<^verbatim>\<open>Table\<close>
  struct; \<open>Columns\<close> lists the entries of its column map in the order in which
  \<^verbatim>\<open>range table.Columns\<close> yields them in the call at hand (Go fixes no order, and the
  results below hold for every order).
\<close>

datatype sql_value = Null | Str string | Num int | Flag bool

type_synonym object = "string \<Rightarrow> sql_value option"

record table =
  Name :: string
  Columns :: "(string \<times> string) list"
  PKFields :: "string list"

text \<open>Modelled from the spec: \<^verbatim>\<open>Table.GetPKFields\<close> (the declaration of \<^verbatim>\<open>Table\<close> is not
  among the sources): the names of the table's \<open>pkFields: set<columnName>\<close>.\<close>

definition GetPKFields :: "table \<Rightarrow> string list" where
  "GetPKFields t = PKFields t"

text \<open>
  A statement sent to the engine is its template, its target table, its column header
  and the values bound to its placeholders. The placeholder text (\<open>$1\<close>, \<open>$2\<close>, ... in
  groups of one row each, with the cast clauses of the mapping) numbers the bound values
  in order and is not modelled apart from them. \<open>InsertStmt\<close> is \<^verbatim>\<open>insertTemplate\<close>,
  \<open>MergeStmt\<close> is \<^verbatim>\<open>mergeTemplate\<close> (\<^verbatim>\<open>ON CONFLICT ON CONSTRAINT ... DO UPDATE\<close> on the
  table's primary-key constraint), \<open>DeleteStmt\<close> is \<^verbatim>\<open>deleteQueryTemplate\<close> with its
  conditions (field, clause, value) and their join word.
\<close>

datatype statement =
    InsertStmt string "string list" "sql_value list"
  | MergeStmt string "string list" "sql_value list"
  | DeleteStmt string "(string \<times> string \<times> sql_value) list" string

datatype adapter_error =
    Driver string
  | PrepareMerge string string
  | MergeRow string "sql_value list" string
  | PrepareDelete string string
  | DeleteExec string

text \<open>
  The database behind \<^verbatim>\<open>database/sql\<close>: whether a transaction opens, whether a statement
  prepares, what a statement does to the data (or the error it raises), and whether the
  commit goes through. A transaction carries the working copy of the data and, as a
  record of what was sent, the statements executed on it in order.
\<close>

record 'db engine =
  open_error :: "string option"
  prepare_error :: "statement \<Rightarrow> string option"
  exec_stmt :: "statement \<Rightarrow> 'db \<Rightarrow> string + 'db"
  commit_error :: "string option"

record 'db transaction =
  working :: 'db
  issued :: "statement list"

definition tx_exec :: "'db engine \<Rightarrow> statement \<Rightarrow> 'db transaction \<Rightarrow> string option \<times> 'db transaction" where
  "tx_exec e s tx =
     (case exec_stmt e s (working tx) of
        Inl m \<Rightarrow> (Some m, tx\<lparr>issued := issued tx @ [s]\<rparr>)
      | Inr d \<Rightarrow> (None, \<lparr>working = d, issued = issued tx @ [s]\<rparr>))"

definition OpenTx :: "'db engine \<Rightarrow> 'db \<Rightarrow> string + 'db transaction" where
  "OpenTx e db = (case open_error e of Some m \<Rightarrow> Inl m | None \<Rightarrow> Inr \<lparr>working = db, issued = []\<rparr>)"

text \<open>Modelled from the spec: \<^verbatim>\<open>Transaction.Rollback\<close> and \<^verbatim>\<open>Transaction.DirectCommit\<close>
  (the \<^verbatim>\<open>Transaction\<close> wrapper is not among the sources), after "commit on success,
  rollback on any row error": a rollback leaves the database as it was when the
  transaction opened; a commit makes the working copy the database, or returns the
  driver's error and leaves the database as it was.\<close>

definition Rollback :: "'db \<Rightarrow> 'db transaction \<Rightarrow> 'db" where
  "Rollback db tx = db"

definition DirectCommit :: "'db engine \<Rightarrow> 'db \<Rightarrow> 'db transaction \<Rightarrow> adapter_error option \<times> 'db" where
  "DirectCommit e db tx =
     (case commit_error e of Some m \<Rightarrow> (Some (Driver m), db) | None \<Rightarrow> (None, working tx))"

definition mysqlValuesLimit :: nat where
  "mysqlValuesLimit = 65535"

definition row_values :: "string list \<Rightarrow> object \<Rightarrow> sql_value list" where
  "row_values header row = map (\<lambda>column. case row column of None \<Rightarrow> Null | Some v \<Rightarrow> v) header"

definition insertQuery :: "string list \<Rightarrow> string \<Rightarrow> string list \<Rightarrow> sql_value list \<Rightarrow> statement" where
  "insertQuery pkFields tableName header args =
     (if length pkFields = 0 then InsertStmt tableName header args
      else MergeStmt tableName header args)"

definition executeInsert ::
  "'db engine \<Rightarrow> table \<Rightarrow> string list \<Rightarrow> sql_value list \<Rightarrow> 'db transaction
     \<Rightarrow> adapter_error option \<times> 'db transaction" where
  "executeInsert e t header valueArgs tx =
     (case tx_exec e (insertQuery (GetPKFields t) (Name t) header valueArgs) tx of
        (Some m, tx') \<Rightarrow> (Some (Driver m), tx')
      | (None, tx') \<Rightarrow> (None, tx'))"

text \<open>The loop of \<^verbatim>\<open>bulkInsertInTransaction\<close> over the rows, with \<open>valueArgs\<close> as its
  accumulator. (\<^verbatim>\<open>strings.Builder.WriteString\<close> never returns an error, so the branches
  on it do not appear.)\<close>

fun bulkInsertLoop ::
  "'db engine \<Rightarrow> table \<Rightarrow> string list \<Rightarrow> object list \<Rightarrow> sql_value list \<Rightarrow> 'db transaction
     \<Rightarrow> adapter_error option \<times> sql_value list \<times> 'db transaction" where
  "bulkInsertLoop e t header [] valueArgs tx = (None, valueArgs, tx)"
| "bulkInsertLoop e t header (row # rows) valueArgs tx =
     (if length valueArgs + length header > mysqlValuesLimit then
        (case executeInsert e t header valueArgs tx of
           (Some err, tx') \<Rightarrow> (Some err, valueArgs, tx')
         | (None, tx') \<Rightarrow> bulkInsertLoop e t header rows (row_values header row) tx')
      else bulkInsertLoop e t header rows (valueArgs @ row_values header row) tx)"

definition bulkInsertInTransaction ::
  "'db engine \<Rightarrow> table \<Rightarrow> object list \<Rightarrow> 'db transaction \<Rightarrow> adapter_error option \<times> 'db transaction" where
  "bulkInsertInTransaction e t objects tx =
     (let header = map fst (Columns t) in
      case bulkInsertLoop e t header objects [] tx of
        (Some err, valueArgs, tx') \<Rightarrow> (Some err, tx')
      | (None, valueArgs, tx') \<Rightarrow>
          if length valueArgs > 0 then executeInsert e t header valueArgs tx'
          else (None, tx'))"

fun bulkMergeLoop ::
  "'db engine \<Rightarrow> table \<Rightarrow> string list \<Rightarrow> object list \<Rightarrow> 'db transaction
     \<Rightarrow> adapter_error option \<times> 'db transaction" where
  "bulkMergeLoop e t header [] tx = (None, tx)"
| "bulkMergeLoop e t header (row # rows) tx =
     (case tx_exec e (MergeStmt (Name t) header (row_values header row)) tx of
        (Some m, tx') \<Rightarrow> (Some (MergeRow (Name t) (row_values header row) m), tx')
      | (None, tx') \<Rightarrow> bulkMergeLoop e t header rows tx')"

definition bulkMergeInTransaction ::
  "'db engine \<Rightarrow> table \<Rightarrow> object list \<Rightarrow> 'db transaction \<Rightarrow> adapter_error option \<times> 'db transaction" where
  "bulkMergeInTransaction e t objects tx =
     (let header = map fst (Columns t) in
      case prepare_error e (MergeStmt (Name t) header []) of
        Some m \<Rightarrow> (Some (PrepareMerge (Name t) m), tx)
      | None \<Rightarrow> bulkMergeLoop e t header objects tx)"

definition bulkStoreInTransaction ::
  "'db engine \<Rightarrow> table \<Rightarrow> object list \<Rightarrow> 'db transaction \<Rightarrow> adapter_error option \<times> 'db transaction" where
  "bulkStoreInTransaction e t objects tx =
     (if length (PKFields t) = 0 then bulkInsertInTransaction e t objects tx
      else bulkMergeInTransaction e t objects tx)"

text \<open>\<^verbatim>\<open>BulkInsert\<close> and \<^verbatim>\<open>BulkUpdate\<close> return the error (if any) and leave the database
  in its new state; the third component records the statements that were sent to the
  engine inside the transaction.\<close>

definition BulkInsert ::
  "'db engine \<Rightarrow> table \<Rightarrow> object list \<Rightarrow> 'db \<Rightarrow> adapter_error option \<times> 'db \<times> statement list" where
  "BulkInsert e t objects db =
     (case OpenTx e db of
        Inl m \<Rightarrow> (Some (Driver m), db, [])
      | Inr wrappedTx \<Rightarrow>
          (case bulkStoreInTransaction e t objects wrappedTx of
             (Some err, tx') \<Rightarrow> (Some err, Rollback db tx', issued tx')
           | (None, tx') \<Rightarrow>
               (case DirectCommit e db tx' of (r, db') \<Rightarrow> (r, db', issued tx'))))"

text \<open>\<^verbatim>\<open>deleteConditions\<close> is \<open>None\<close> when \<^verbatim>\<open>deleteConditions.IsEmpty()\<close> holds (the
  declaration of \<^verbatim>\<open>DeleteConditions\<close> is not among the sources), and otherwise the
  conditions and the word that joins them.\<close>

definition deleteInTransaction ::
  "'db engine \<Rightarrow> table \<Rightarrow> (string \<times> string \<times> sql_value) list \<times> string \<Rightarrow> 'db transaction
     \<Rightarrow> adapter_error option \<times> 'db transaction" where
  "deleteInTransaction e t deleteConditions tx =
     (let query = DeleteStmt (Name t) (fst deleteConditions) (snd deleteConditions) in
      case prepare_error e query of
        Some m \<Rightarrow> (Some (PrepareDelete (Name t) m), tx)
      | None \<Rightarrow>
          (case tx_exec e query tx of
             (Some m, tx') \<Rightarrow> (Some (DeleteExec m), tx')
           | (None, tx') \<Rightarrow> (None, tx')))"

definition BulkUpdate ::
  "'db engine \<Rightarrow> table \<Rightarrow> object list \<Rightarrow> ((string \<times> string \<times> sql_value) list \<times> string) option \<Rightarrow> 'db
     \<Rightarrow> adapter_error option \<times> 'db \<times> statement list" where
  "BulkUpdate e t objects deleteConditions db =
     (case OpenTx e db of
        Inl m \<Rightarrow> (Some (Driver m), db, [])
      | Inr wrappedTx \<Rightarrow>
          (case (case deleteConditions of
                   None \<Rightarrow> (None, wrappedTx)
                 | Some dc \<Rightarrow> deleteInTransaction e t dc wrappedTx) of
             (Some err, tx') \<Rightarrow> (Some err, Rollback db tx', issued tx')
           | (None, tx') \<Rightarrow>
               (case bulkStoreInTransaction e t objects tx' of
                  (Some err, tx'') \<Rightarrow> (Some err, Rollback db tx'', issued tx'')
                | (None, tx'') \<Rightarrow>
                    (case DirectCommit e db tx'' of (r, db') \<Rightarrow> (r, db', issued tx'')))))"

text \<open>Running a list of statements against the data, in order, up to the first error.\<close>

fun run_all :: "(statement \<Rightarrow> 'db \<Rightarrow> string + 'db) \<Rightarrow> statement list \<Rightarrow> 'db \<Rightarrow> string + 'db" where
  "run_all ex [] db = Inr db"
| "run_all ex (s # ss) db = (case ex s db of Inl m \<Rightarrow> Inl m | Inr db' \<Rightarrow> run_all ex ss db')"

subsection \<open>The engine's reading of the statements\<close>

text \<open>
  What the SQL engine does with the statements, as far as the results below need it.
  A physical table has the columns of its primary-key constraint (none when it has no
  constraint) and its rows. The bound values of a statement are cut into rows of one
  value per header column. A plain insert appends its rows, and fails on a row whose
  key is already present under the constraint; a merge updates the row with the same
  key or appends, needs the constraint, and fails when two of its own rows share a key;
  either fails on a missing table or on more than \<open>mysqlValuesLimit\<close> bound values. What a delete condition matches is left to the
  parameter \<open>matches\<close>.
\<close>

record physical_table =
  pk_constraint :: "string list"
  stored :: "(string \<times> sql_value) list list"

type_synonym database = "string \<Rightarrow> physical_table option"

fun split_rows :: "nat \<Rightarrow> 'a list \<Rightarrow> 'a list list" where
  "split_rows width vals =
     (if vals = [] \<or> width = 0 then [] else take width vals # split_rows width (drop width vals))"

declare split_rows.simps [simp del]

definition stmt_rows :: "statement \<Rightarrow> sql_value list list" where
  "stmt_rows s =
     (case s of
        InsertStmt tn h args \<Rightarrow> split_rows (length h) args
      | MergeStmt tn h args \<Rightarrow> split_rows (length h) args
      | DeleteStmt tn conds j \<Rightarrow> [])"

definition bound_values :: "statement \<Rightarrow> sql_value list" where
  "bound_values s =
     (case s of
        InsertStmt tn h args \<Rightarrow> args
      | MergeStmt tn h args \<Rightarrow> args
      | DeleteStmt tn conds j \<Rightarrow> map (\<lambda>(field, clause, v). v) conds)"

definition key_of :: "string list \<Rightarrow> (string \<times> sql_value) list \<Rightarrow> sql_value option list" where
  "key_of pk r = map (map_of r) pk"

fun insert_rows ::
  "string list \<Rightarrow> (string \<times> sql_value) list list \<Rightarrow> (string \<times> sql_value) list list
     \<Rightarrow> (string \<times> sql_value) list list option" where
  "insert_rows pk [] st = Some st"
| "insert_rows pk (r # rs) st =
     (if pk \<noteq> [] \<and> key_of pk r \<in> set (map (key_of pk) st) then None
      else insert_rows pk rs (st @ [r]))"

definition update_row :: "(string \<times> sql_value) list \<Rightarrow> (string \<times> sql_value) list \<Rightarrow> (string \<times> sql_value) list" where
  "update_row x r = map (\<lambda>(c, v). case map_of r c of Some v' \<Rightarrow> (c, v') | None \<Rightarrow> (c, v)) x"

fun upsert ::
  "string list \<Rightarrow> (string \<times> sql_value) list \<Rightarrow> (string \<times> sql_value) list list
     \<Rightarrow> (string \<times> sql_value) list list" where
  "upsert pk r [] = [r]"
| "upsert pk r (x # xs) =
     (if key_of pk x = key_of pk r then update_row x r # xs else x # upsert pk r xs)"

definition sql_exec ::
  "((string \<times> string \<times> sql_value) list \<Rightarrow> string \<Rightarrow> (string \<times> sql_value) list \<Rightarrow> bool)
     \<Rightarrow> statement \<Rightarrow> database \<Rightarrow> string + database" where
  "sql_exec matches s db =
     (case s of
        InsertStmt tn h args \<Rightarrow>
          (case db tn of
             None \<Rightarrow> Inl ''relation does not exist''
           | Some pt \<Rightarrow>
               if length args > mysqlValuesLimit then Inl ''too many parameters''
               else (case insert_rows (pk_constraint pt) (map (zip h) (split_rows (length h) args)) (stored pt) of
                       None \<Rightarrow> Inl ''duplicate key value violates unique constraint''
                     | Some st \<Rightarrow> Inr (db(tn \<mapsto> pt\<lparr>stored := st\<rparr>))))
      | MergeStmt tn h args \<Rightarrow>
          (case db tn of
             None \<Rightarrow> Inl ''relation does not exist''
           | Some pt \<Rightarrow>
               if length args > mysqlValuesLimit then Inl ''too many parameters''
               else if pk_constraint pt = [] then Inl ''constraint does not exist''
               else if \<not> distinct (map (key_of (pk_constraint pt)) (map (zip h) (split_rows (length h) args)))
                 then Inl ''ON CONFLICT DO UPDATE command cannot affect row a second time''
               else Inr (db(tn \<mapsto> pt\<lparr>stored :=
                      fold (upsert (pk_constraint pt)) (map (zip h) (split_rows (length h) args)) (stored pt)\<rparr>)))
      | DeleteStmt tn conds j \<Rightarrow>
          (case db tn of
             None \<Rightarrow> Inl ''relation does not exist''
           | Some pt \<Rightarrow> Inr (db(tn \<mapsto> pt\<lparr>stored := filter (\<lambda>r. \<not> matches conds j r) (stored pt)\<rparr>))))"

subsection \<open>A database and a table for the examples\<close>

definition pg_engine :: "database engine" where
  "pg_engine = \<lparr>open_error = None, prepare_error = (\<lambda>s. None),
                 exec_stmt = sql_exec (\<lambda>conds j r. False), commit_error = None\<rparr>"

definition users_table :: "string list \<Rightarrow> table" where
  "users_table pk =
     \<lparr>Name = ''users'', Columns = [(''email'', ''text''), (''name'', ''text'')], PKFields = pk\<rparr>"

definition users_db :: "string list \<Rightarrow> database" where
  "users_db pk = [''users'' \<mapsto> \<lparr>pk_constraint = pk, stored = []\<rparr>]"

definition user_row :: object where
  "user_row = [''email'' \<mapsto> Str ''a@x'', ''name'' \<mapsto> Str ''A'']"

lemmas example_defs = pg_engine_def users_table_def users_db_def user_row_def
  BulkInsert_def BulkUpdate_def OpenTx_def Rollback_def DirectCommit_def
  bulkStoreInTransaction_def bulkInsertInTransaction_def bulkMergeInTransaction_def
  deleteInTransaction_def executeInsert_def tx_exec_def insertQuery_def GetPKFields_def
  row_values_def mysqlValuesLimit_def sql_exec_def split_rows.simps key_of_def update_row_def Let_def


section \<open>Postgres storage (storages/postgres.go)\<close>

text \<open>
  The storage works on a sink of some type \<open>'w\<close> (the live database together with the
  table helper's cache) through its collaborators, whose code is not among the sources
  and which are therefore parameters: the table helper (\<^verbatim>\<open>MapTableSchema\<close>,
  \<^verbatim>\<open>EnsureTable\<close>, \<^verbatim>\<open>RefreshTableSchema\<close>), the Postgres adapter (\<^verbatim>\<open>Insert\<close>,
  \<^verbatim>\<open>BulkInsert\<close>) and the processor (\<^verbatim>\<open>ProcessFilePayload\<close>). Each may change the sink
  and may fail; an error is its text (\<^verbatim>\<open>err.Error()\<close>).
\<close>

text \<open>Modelled from the spec: \<^verbatim>\<open>BatchHeader\<close> (\<open>{tableName, fields}\<close>) and
  \<^verbatim>\<open>BatchHeader.Exists\<close> (the schema package is not among the sources): a header exists
  when it has a field ("if the derived header has zero fields, drop silently").\<close>

record batch_header =
  TableName :: string
  Fields :: "(string \<times> string) list"

definition Exists :: "batch_header \<Rightarrow> bool" where
  "Exists h \<longleftrightarrow> Fields h \<noteq> []"

record processed_file =
  BatchHeader :: batch_header
  payload :: "object list"

record failed_event =
  Event :: string
  Error :: string
  EventID :: string

record store_result =
  Err :: "string option"
  RowsCount :: nat

datatype cache_entry =
    CacheError string string string
  | CacheSucceed string string object table

record 'w table_helper =
  MapTableSchema :: "batch_header \<Rightarrow> table"
  EnsureTable :: "string \<Rightarrow> table \<Rightarrow> 'w \<Rightarrow> (string + table) \<times> 'w"
  RefreshTableSchema :: "string \<Rightarrow> table \<Rightarrow> 'w \<Rightarrow> (string + table) \<times> 'w"

record 'w sink_adapter =
  adapter_Insert :: "table \<Rightarrow> object \<Rightarrow> 'w \<Rightarrow> string option \<times> 'w"
  adapter_BulkInsert :: "table \<Rightarrow> object list \<Rightarrow> 'w \<Rightarrow> string option \<times> 'w"

text \<open>\<^verbatim>\<open>ProcessFilePayload\<close> takes the file name, the payload, the tables already uploaded
  (a Go \<^verbatim>\<open>map[string]bool\<close>, read as a predicate) and the parse function, which is
  \<^verbatim>\<open>parsers.ParseJSON\<close> when the flag is set and \<^verbatim>\<open>parsers.ParseFallbackJSON\<close> otherwise.\<close>

record processor_ops =
  ProcessFilePayload ::
    "string \<Rightarrow> string \<Rightarrow> (string \<Rightarrow> bool) \<Rightarrow> bool \<Rightarrow> string + (processed_file list \<times> failed_event list)"
  linesCount :: "string \<Rightarrow> nat"
  ExtractEventID :: "object \<Rightarrow> string"

record 'w postgres =
  pg_name :: string
  pg_staged :: bool
  pg_tableHelper :: "'w table_helper"
  pg_adapter :: "'w sink_adapter"
  pg_processor :: processor_ops

text \<open>What a destination accumulates besides its sink: the events cache and the lines
  handed to its fallback logger.\<close>

record 'w dest_state =
  sink :: 'w
  events_cache :: "cache_entry list"
  fallback_log :: "failed_event list"

subsection \<open>Streaming insert with one retry\<close>

text \<open>The third component of the result records, in order, the calls made to the table
  helper and to the adapter.\<close>

datatype storage_call = EnsureCall | InsertCall | RefreshCall

definition Postgres_Insert ::
  "'w postgres \<Rightarrow> table \<Rightarrow> object \<Rightarrow> 'w \<Rightarrow> string option \<times> 'w \<times> storage_call list" where
  "Postgres_Insert p tbl event w =
     (case EnsureTable (pg_tableHelper p) (pg_name p) tbl w of
        (Inl err, w1) \<Rightarrow> (Some err, w1, [EnsureCall])
      | (Inr dbTable, w1) \<Rightarrow>
          (case adapter_Insert (pg_adapter p) dbTable event w1 of
             (None, w2) \<Rightarrow> (None, w2, [EnsureCall, InsertCall])
           | (Some err, w2) \<Rightarrow>
               (case RefreshTableSchema (pg_tableHelper p) (pg_name p) tbl w2 of
                  (Inl err', w3) \<Rightarrow> (Some err', w3, [EnsureCall, InsertCall, RefreshCall])
                | (Inr refreshed, w3) \<Rightarrow>
                    (case EnsureTable (pg_tableHelper p) (pg_name p) tbl w3 of
                       (Inl err', w4) \<Rightarrow>
                         (Some err', w4, [EnsureCall, InsertCall, RefreshCall, EnsureCall])
                     | (Inr dbTable', w4) \<Rightarrow>
                         (case adapter_Insert (pg_adapter p) dbTable' event w4 of
                            (r, w5) \<Rightarrow>
                              (r, w5, [EnsureCall, InsertCall, RefreshCall, EnsureCall, InsertCall]))))))"

subsection \<open>Batch store of a file payload\<close>

definition storeTable ::
  "'w postgres \<Rightarrow> processed_file \<Rightarrow> table \<Rightarrow> 'w \<Rightarrow> string option \<times> 'w" where
  "storeTable p fdata tbl w =
     (case EnsureTable (pg_tableHelper p) (pg_name p) tbl w of
        (Inl err, w1) \<Rightarrow> (Some err, w1)
      | (Inr dbSchema, w1) \<Rightarrow> adapter_BulkInsert (pg_adapter p) dbSchema (payload fdata) w1)"

definition Fallback :: "failed_event list \<Rightarrow> 'w dest_state \<Rightarrow> 'w dest_state" where
  "Fallback failedEvents st = st\<lparr>fallback_log := fallback_log st @ failedEvents\<rparr>"

text \<open>\<^verbatim>\<open>tableResults[table.Name] = ...\<close> on a map kept as a list of entries with distinct
  keys: an entry with the key is replaced, a new key is added at the end.\<close>

fun put_result :: "string \<Rightarrow> store_result \<Rightarrow> (string \<times> store_result) list \<Rightarrow> (string \<times> store_result) list" where
  "put_result k v [] = [(k, v)]"
| "put_result k v ((k', v') # rest) =
     (if k' = k then (k, v) # rest else (k', v') # put_result k v rest)"

definition cache_outcome :: "'w postgres \<Rightarrow> string option \<Rightarrow> table \<Rightarrow> object \<Rightarrow> cache_entry" where
  "cache_outcome p err tbl obj =
     (case err of
        Some e \<Rightarrow> CacheError (pg_name p) (ExtractEventID (pg_processor p) obj) e
      | None \<Rightarrow> CacheSucceed (pg_name p) (ExtractEventID (pg_processor p) obj) obj tbl)"

text \<open>The loop over \<^verbatim>\<open>flatData\<close>; it carries \<^verbatim>\<open>tableResults\<close>, \<^verbatim>\<open>storeFailedEvents\<close> and
  the state of the destination.\<close>

fun store_loop ::
  "'w postgres \<Rightarrow> processed_file list
     \<Rightarrow> (string \<times> store_result) list \<Rightarrow> bool \<Rightarrow> 'w dest_state
     \<Rightarrow> (string \<times> store_result) list \<times> bool \<times> 'w dest_state" where
  "store_loop p [] tableResults storeFailedEvents st = (tableResults, storeFailedEvents, st)"
| "store_loop p (fdata # rest) tableResults storeFailedEvents st =
     (let tbl = MapTableSchema (pg_tableHelper p) (BatchHeader fdata) in
      case storeTable p fdata tbl (sink st) of
        (err, w') \<Rightarrow>
          store_loop p rest
            (put_result (Name tbl) \<lparr>Err = err, RowsCount = length (payload fdata)\<rparr> tableResults)
            (if err \<noteq> None then False else storeFailedEvents)
            (st\<lparr>sink := w',
                events_cache := events_cache st @ map (cache_outcome p err tbl) (payload fdata)\<rparr>))"

text \<open>\<^verbatim>\<open>StoreWithParseFunc\<close> returns the result per table, the count of failed events and
  the error (if any).\<close>

definition StoreWithParseFunc ::
  "'w postgres \<Rightarrow> string \<Rightarrow> string \<Rightarrow> (string \<Rightarrow> bool) \<Rightarrow> bool \<Rightarrow> 'w dest_state
     \<Rightarrow> ((string \<times> store_result) list \<times> nat \<times> string option) \<times> 'w dest_state" where
  "StoreWithParseFunc p fileName bytes alreadyUploadedTables rawParse st =
     (case ProcessFilePayload (pg_processor p) fileName bytes alreadyUploadedTables rawParse of
        Inl err \<Rightarrow> (([], linesCount (pg_processor p) bytes, Some err), st)
      | Inr (flatData, failedEvents) \<Rightarrow>
          (let st1 = st\<lparr>events_cache := events_cache st
                         @ map (\<lambda>fe. CacheError (pg_name p) (EventID fe) (Error fe)) failedEvents\<rparr> in
           case store_loop p flatData [] True st1 of
             (tableResults, storeFailedEvents, st2) \<Rightarrow>
               ((tableResults, length failedEvents, None),
                (if storeFailedEvents then Fallback failedEvents st2 else st2))))"



section \<open>Streaming worker\<close>

text \<open>
  The \<^verbatim>\<open>Storage\<close> interface as the streaming worker and the fallback service use it: the
  name, the staged flag, the streaming insert and the batch store of a file. An
  implementation is a record of these; \<open>postgres_storage\<close> is the Postgres one.
\<close>

record 'w storage =
  storage_name :: string
  is_staging :: bool
  insert_event :: "table \<Rightarrow> object \<Rightarrow> 'w \<Rightarrow> string option \<times> 'w"
  store_file ::
    "string \<Rightarrow> string \<Rightarrow> (string \<Rightarrow> bool) \<Rightarrow> bool \<Rightarrow> 'w dest_state
       \<Rightarrow> ((string \<times> store_result) list \<times> nat \<times> string option) \<times> 'w dest_state"

definition postgres_storage :: "'w postgres \<Rightarrow> 'w storage" where
  "postgres_storage p =
     \<lparr>storage_name = pg_name p,
      is_staging = pg_staged p,
      insert_event = (\<lambda>tbl event w. case Postgres_Insert p tbl event w of (r, w', calls) \<Rightarrow> (r, w')),
      store_file = StoreWithParseFunc p\<rparr>"

subsection \<open>\<^verbatim>\<open>strings.Contains\<close>\<close>

fun has_prefix :: "string \<Rightarrow> string \<Rightarrow> bool" where
  "has_prefix [] s = True"
| "has_prefix (c # cs) [] = False"
| "has_prefix (c # cs) (d # ds) = (c = d \<and> has_prefix cs ds)"

fun Contains :: "string \<Rightarrow> string \<Rightarrow> bool" where
  "Contains [] substr = (substr = [])"
| "Contains (c # s) substr = (has_prefix substr (c # s) \<or> Contains s substr)"

text \<open>The test of the worker on the text of an insert error.\<close>

definition is_transient :: "string \<Rightarrow> bool" where
  "is_transient err \<longleftrightarrow>
     Contains err ''connection refused'' \<or>
     Contains err ''EOF'' \<or>
     Contains err ''write: broken pipe'' \<or>
     Contains err ''context deadline exceeded'' \<or>
     Contains err ''connection reset by peer''"

text \<open>The transient set in the words of the specification: the error text matches one
  of \<open>connection refused\<close>, \<open>EOF\<close>, \<open>broken pipe\<close>, \<open>deadline exceeded\<close>,
  \<open>connection reset\<close>.\<close>

definition spec_transient :: "string \<Rightarrow> bool" where
  "spec_transient err \<longleftrightarrow>
     Contains err ''connection refused'' \<or>
     Contains err ''EOF'' \<or>
     Contains err ''broken pipe'' \<or>
     Contains err ''deadline exceeded'' \<or>
     Contains err ''connection reset''"

subsection \<open>The worker and its state\<close>

text \<open>
  The processor's \<^verbatim>\<open>ProcessEvent\<close>, \<^verbatim>\<open>events.ExtractEventID\<close> and \<^verbatim>\<open>Event.Serialize\<close> are
  not among the sources and are parameters of the worker; \<open>skip_text\<close> is the text of
  \<^verbatim>\<open>schema.ErrSkipObject\<close>. \<open>tableHelpers\<close> are the \<^verbatim>\<open>MapTableSchema\<close> functions of the
  worker's table helpers.
\<close>

datatype process_error = ErrSkipObject | ProcessError string

record 'w worker =
  streamingStorage :: "'w storage"
  ProcessEvent :: "object \<Rightarrow> process_error + (batch_header \<times> object)"
  tableHelpers :: "(batch_header \<Rightarrow> table) list"
  event_id :: "object \<Rightarrow> string"
  Serialize :: "object \<Rightarrow> string"
  skip_text :: string

definition error_text :: "'w worker \<Rightarrow> process_error \<Rightarrow> string" where
  "error_text sw err = (case err of ErrSkipObject \<Rightarrow> skip_text sw | ProcessError m \<Rightarrow> m)"

text \<open>
  Modelled from the spec: the persistent queue (\<^verbatim>\<open>events.PersistentQueue\<close> is not among
  the sources), a FIFO of \<open>(payload, notBefore, tokenId)\<close>; \<^verbatim>\<open>ConsumeTimed\<close> re-enqueues
  at the end with the given \<open>notBefore\<close>; \<^verbatim>\<open>DequeueBlock\<close> takes the head, returns
  \<^verbatim>\<open>ErrQueueClosed\<close> on a closed queue and blocks on an empty one. Times are in seconds.
\<close>

type_synonym queued_event = "object \<times> nat \<times> string"

record 'w worker_state = "'w dest_state" +
  queue :: "queued_event list"
  queue_closed :: bool
  closed :: bool
  error_events :: nat
  success_events :: nat
  skip_events :: nat
  error_tokens :: "string list"
  success_tokens :: "string list"
  archived_events :: "(object \<times> string) list"

definition ConsumeTimed :: "object \<Rightarrow> nat \<Rightarrow> string \<Rightarrow> 'w worker_state \<Rightarrow> 'w worker_state" where
  "ConsumeTimed evt notBefore tokenID st = st\<lparr>queue := queue st @ [(evt, notBefore, tokenID)]\<rparr>"

datatype 'w dequeued =
    ErrQueueClosed
  | WouldBlock
  | Dequeued object nat string "'w worker_state"

definition DequeueBlock :: "'w worker_state \<Rightarrow> 'w dequeued" where
  "DequeueBlock st =
     (if queue_closed st then ErrQueueClosed
      else (case queue st of
              [] \<Rightarrow> WouldBlock
            | (evt, dequeuedTime, tokenID) # rest \<Rightarrow> Dequeued evt dequeuedTime tokenID (st\<lparr>queue := rest\<rparr>)))"

definition worker_Fallback :: "failed_event \<Rightarrow> 'w worker_state \<Rightarrow> 'w worker_state" where
  "worker_Fallback fe st = st\<lparr>fallback_log := fallback_log st @ [fe]\<rparr>"

definition cache_Error :: "string \<Rightarrow> string \<Rightarrow> string \<Rightarrow> 'w worker_state \<Rightarrow> 'w worker_state" where
  "cache_Error name eventID err st = st\<lparr>events_cache := events_cache st @ [CacheError name eventID err]\<rparr>"

text \<open>\<^verbatim>\<open>getTableHelper\<close> picks \<^verbatim>\<open>tableHelper[rand.Intn(len(tableHelper))]\<close>; \<open>rnd\<close> is the
  random source. \<^verbatim>\<open>rand.Intn(0)\<close> panics, which is \<open>None\<close>.\<close>

definition getTableHelper :: "'w worker \<Rightarrow> nat \<Rightarrow> (batch_header \<Rightarrow> table) option" where
  "getTableHelper sw rnd =
     (if tableHelpers sw = [] then None
      else Some (tableHelpers sw ! (rnd mod length (tableHelpers sw))))"

text \<open>
  The body of the loop of \<^verbatim>\<open>StreamingWorker.start\<close> from the dequeued event on. \<open>evt\<close>
  is the dequeued event (\<^verbatim>\<open>fact\<close> in the source), \<open>now\<close> is \<^verbatim>\<open>time.Now()\<close> at the test
  of the retry time and \<open>now'\<close> is \<^verbatim>\<open>time.Now()\<close> at the re-enqueue after an insert
  error. A panic of \<^verbatim>\<open>getTableHelper\<close> is recovered by \<^verbatim>\<open>safego.RunWithRestart\<close>, which
  starts the loop again: the event at hand is dropped.
\<close>

definition process_dequeued ::
  "'w worker \<Rightarrow> nat \<Rightarrow> nat \<Rightarrow> nat \<Rightarrow> object \<Rightarrow> nat \<Rightarrow> string \<Rightarrow> 'w worker_state \<Rightarrow> 'w worker_state" where
  "process_dequeued sw now now' rnd evt dequeuedTime tokenID st =
     (let name = storage_name (streamingStorage sw) in
      if now < dequeuedTime then ConsumeTimed evt dequeuedTime tokenID st
      else
        (case ProcessEvent sw evt of
           Inl err \<Rightarrow>
             cache_Error name (event_id sw evt) (error_text sw err)
               (if err = ErrSkipObject then st\<lparr>skip_events := skip_events st + 1\<rparr>
                else worker_Fallback
                       \<lparr>Event = Serialize sw evt, Error = error_text sw err, EventID = event_id sw evt\<rparr>
                       (st\<lparr>error_tokens := error_tokens st @ [tokenID],
                           error_events := error_events st + 1\<rparr>))
         | Inr (batchHeader, flattenObject) \<Rightarrow>
             if \<not> Exists batchHeader then st
             else
               (case getTableHelper sw rnd of
                  None \<Rightarrow> st
                | Some mapTableSchema \<Rightarrow>
                    (let tbl = mapTableSchema batchHeader in
                     case insert_event (streamingStorage sw) tbl flattenObject (sink st) of
                       (Some err, w') \<Rightarrow>
                         (let st1 = st\<lparr>sink := w'\<rparr>;
                              st2 = (if is_transient err
                                     then ConsumeTimed evt (now' + 20) tokenID st1
                                     else worker_Fallback
                                            \<lparr>Event = Serialize sw evt, Error = err,
                                             EventID = event_id sw flattenObject\<rparr> st1);
                              st3 = st2\<lparr>error_events := error_events st2 + 1\<rparr>;
                              st4 = cache_Error name (event_id sw evt) err st3
                          in st4\<lparr>error_tokens := error_tokens st4 @ [tokenID]\<rparr>)
                     | (None, w') \<Rightarrow>
                         st\<lparr>sink := w',
                            success_events := success_events st + 1,
                            events_cache := events_cache st
                              @ [CacheSucceed name (event_id sw evt) flattenObject tbl],
                            success_tokens := success_tokens st @ [tokenID],
                            archived_events := archived_events st @ [(evt, tokenID)]\<rparr>))))"

datatype loop_status = Exited | Blocked | Running

text \<open>
  The loop. Each turn reads the clock and the random source, given as the list of
  readings \<open>(now, now', rnd)\<close>, one per turn; the loop is \<open>Running\<close> when the readings
  are used up, \<open>Blocked\<close> when it waits on the empty queue, \<open>Exited\<close> after a \<^verbatim>\<open>break\<close>.
\<close>

fun worker_loop ::
  "'w worker \<Rightarrow> (nat \<times> nat \<times> nat) list \<Rightarrow> 'w worker_state \<Rightarrow> loop_status \<times> 'w worker_state" where
  "worker_loop sw [] st = (Running, st)"
| "worker_loop sw ((now, now', rnd) # readings) st =
     (if is_staging (streamingStorage sw) then (Exited, st)
      else if closed st then (Exited, st)
      else
        (case DequeueBlock st of
           ErrQueueClosed \<Rightarrow> worker_loop sw readings st
         | WouldBlock \<Rightarrow> (Blocked, st)
         | Dequeued evt dequeuedTime tokenID st' \<Rightarrow>
             worker_loop sw readings (process_dequeued sw now now' rnd evt dequeuedTime tokenID st')))"


subsection \<open>A destination for the examples\<close>

text \<open>
  A Postgres storage over a sink that only counts the adapter's calls: the first \<open>k\<close>
  calls fail with the text \<open>msg\<close>, the later ones succeed; the table helper always
  succeeds. Its processor returns two groups, \<open>users\<close> and \<open>events\<close>, and one failed
  event, and leaves out the groups of the tables already uploaded.
\<close>

definition plain_table :: "batch_header \<Rightarrow> table" where
  "plain_table h = \<lparr>Name = TableName h, Columns = Fields h, PKFields = []\<rparr>"

definition id_of :: "object \<Rightarrow> string" where
  "id_of obj = (case obj ''id'' of Some (Str s) \<Rightarrow> s | _ \<Rightarrow> [])"

definition two_groups :: "processed_file list" where
  "two_groups =
     [\<lparr>BatchHeader = \<lparr>TableName = ''users'', Fields = [(''id'', ''text'')]\<rparr>,
       payload = [[''id'' \<mapsto> Str ''u1'']]\<rparr>,
      \<lparr>BatchHeader = \<lparr>TableName = ''events'', Fields = [(''id'', ''text'')]\<rparr>,
       payload = [[''id'' \<mapsto> Str ''e1''], [''id'' \<mapsto> Str ''e2'']]\<rparr>]"

definition one_failed :: "failed_event list" where
  "one_failed = [\<lparr>Event = ''{bad}'', Error = ''mapping error'', EventID = ''f1''\<rparr>]"

definition flaky_postgres :: "nat \<Rightarrow> string \<Rightarrow> bool \<Rightarrow> nat postgres" where
  "flaky_postgres k msg stg =
     \<lparr>pg_name = ''pg'',
      pg_staged = stg,
      pg_tableHelper =
        \<lparr>MapTableSchema = plain_table,
         EnsureTable = (\<lambda>n t w. (Inr t, w)),
         RefreshTableSchema = (\<lambda>n t w. (Inr t, w))\<rparr>,
      pg_adapter =
        \<lparr>adapter_Insert = (\<lambda>t ev w. (if w < k then Some msg else None, w + 1)),
         adapter_BulkInsert = (\<lambda>t evs w. (if w < k then Some msg else None, w + 1))\<rparr>,
      pg_processor =
        \<lparr>ProcessFilePayload = (\<lambda>fileName bytes uploaded raw.
           Inr (filter (\<lambda>g. \<not> uploaded (TableName (BatchHeader g))) two_groups, one_failed)),
         linesCount = (\<lambda>bytes. length (filter (\<lambda>c. c = CHR 0x0A) bytes)),
         ExtractEventID = id_of\<rparr>\<rparr>"

definition flaky_worker :: "nat \<Rightarrow> string \<Rightarrow> bool \<Rightarrow> nat worker" where
  "flaky_worker k msg stg =
     \<lparr>streamingStorage = postgres_storage (flaky_postgres k msg stg),
      ProcessEvent = (\<lambda>ev. Inr (\<lparr>TableName = ''events'', Fields = [(''id'', ''text'')]\<rparr>, ev)),
      tableHelpers = [plain_table],
      event_id = id_of,
      Serialize = (\<lambda>ev. ''{id:'' @ id_of ev @ ''}''),
      skip_text = ''skip object''\<rparr>"

definition idle_state :: "queued_event list \<Rightarrow> nat worker_state" where
  "idle_state q =
     \<lparr>sink = 0, events_cache = [], fallback_log = [],
      queue = q, queue_closed = False, closed = False,
      error_events = 0, success_events = 0, skip_events = 0,
      error_tokens = [], success_tokens = [], archived_events = []\<rparr>"

lemmas worker_example_defs = flaky_worker_def flaky_postgres_def postgres_storage_def
  idle_state_def plain_table_def id_of_def two_groups_def one_failed_def
  process_dequeued_def getTableHelper_def Exists_def is_transient_def spec_transient_def
  ConsumeTimed_def worker_Fallback_def cache_Error_def DequeueBlock_def
  Postgres_Insert_def StoreWithParseFunc_def storeTable_def Fallback_def cache_outcome_def
  error_text_def Let_def


section \<open>Fallback service: replay of a fallback file\<close>

subsection \<open>File names\<close>

text \<open>\<^verbatim>\<open>filepath.Base\<close> on a slash-separated path: the last element, trailing slashes
  removed; \<open>.\<close> for the empty path and \<open>/\<close> for a path of slashes only.\<close>

definition Base :: "string \<Rightarrow> string" where
  "Base path =
     (if path = [] then ''.''
      else (let stripped = rev (dropWhile (\<lambda>c. c = CHR ''/'') (rev path));
                last_element = rev (takeWhile (\<lambda>c. c \<noteq> CHR ''/'') (rev stripped))
            in if last_element = [] then ''/'' else last_element))"

text \<open>
  \<^verbatim>\<open>destinationIDExtractRegexp\<close> is \<^verbatim>\<open>failed.dst=(.*)-\d\d\d\d-\d\d-\d\dT\<close>; the dot of
  \<^verbatim>\<open>failed.dst\<close> matches any character but a newline, as does each character of the
  group. \<open>date_at s\<close> holds when \<open>s\<close> starts with \<^verbatim>\<open>-\d\d\d\d-\d\d-\d\dT\<close>;
  \<open>capture s\<close> is the longest newline-free start of \<open>s\<close> that such a date follows (the
  greedy group); \<open>extractDestinationID\<close> takes the leftmost match, and is \<open>None\<close> when
  \<^verbatim>\<open>FindStringSubmatch\<close> finds none. A name is read byte by byte, which is the
  reading of the regular expression on ASCII names (there the dot matches one byte).
\<close>

definition is_digit :: "char \<Rightarrow> bool" where
  "is_digit c \<longleftrightarrow> c \<in> set ''0123456789''"

definition date_at :: "string \<Rightarrow> bool" where
  "date_at s =
     (case s of
        d0 # y1 # y2 # y3 # y4 # d1 # m1 # m2 # d2 # a1 # a2 # t # rest \<Rightarrow>
          d0 = CHR ''-'' \<and> is_digit y1 \<and> is_digit y2 \<and> is_digit y3 \<and> is_digit y4
          \<and> d1 = CHR ''-'' \<and> is_digit m1 \<and> is_digit m2
          \<and> d2 = CHR ''-'' \<and> is_digit a1 \<and> is_digit a2 \<and> t = CHR ''T''
      | _ \<Rightarrow> False)"

fun capture :: "string \<Rightarrow> string option" where
  "capture [] = None"
| "capture (c # cs) =
     (case (if c = CHR 0x0A then None else capture cs) of
        Some g \<Rightarrow> Some (c # g)
      | None \<Rightarrow> if date_at (c # cs) then Some [] else None)"

definition prefix_at :: "string \<Rightarrow> bool" where
  "prefix_at s =
     (case s of
        f # a # i # l # e # d # dot # d' # s' # t # eq # rest \<Rightarrow>
          [f, a, i, l, e, d] = ''failed'' \<and> dot \<noteq> CHR 0x0A \<and> [d', s', t, eq] = ''dst=''
      | _ \<Rightarrow> False)"

fun extractDestinationID :: "string \<Rightarrow> string option" where
  "extractDestinationID [] = None"
| "extractDestinationID (c # cs) =
     (case (if prefix_at (c # cs) then capture (drop 11 (c # cs)) else None) of
        Some g \<Rightarrow> Some g
      | None \<Rightarrow> extractDestinationID cs)"

subsection \<open>Status manager, archiver, service\<close>

text \<open>
  Modelled from the spec: the status manager (\<^verbatim>\<open>logfiles.StatusManager\<close> is not among
  the sources), "per-file table-level progress across retries": a status per file,
  destination and table; \<^verbatim>\<open>UpdateStatus\<close> marks the table uploaded when the error is
  nil and keeps the error otherwise; \<^verbatim>\<open>CleanUp\<close> forgets the file.
\<close>

record table_status =
  Uploaded :: bool
  status_error :: "string option"

type_synonym status_manager = "string \<Rightarrow> string \<Rightarrow> string \<Rightarrow> table_status option"

definition GetTablesStatuses :: "status_manager \<Rightarrow> string \<Rightarrow> string \<Rightarrow> (string \<Rightarrow> table_status option)" where
  "GetTablesStatuses sm fileName storageName = sm fileName storageName"

definition UpdateStatus :: "status_manager \<Rightarrow> string \<Rightarrow> string \<Rightarrow> string \<Rightarrow> string option \<Rightarrow> status_manager" where
  "UpdateStatus sm fileName storageName tableName err =
     sm(fileName := (sm fileName)(storageName :=
          (sm fileName storageName)(tableName \<mapsto> \<lparr>Uploaded = (err = None), status_error = err\<rparr>)))"

definition CleanUp :: "status_manager \<Rightarrow> string \<Rightarrow> status_manager" where
  "CleanUp sm fileName = sm(fileName := (\<lambda>storageName. Map.empty))"

text \<open>The tables already uploaded, as \<^verbatim>\<open>Replay\<close> collects them from the statuses: the Go
  map holds \<^verbatim>\<open>true\<close> for the tables whose status is uploaded and reads \<^verbatim>\<open>false\<close>
  elsewhere.\<close>

definition uploaded_tables :: "(string \<Rightarrow> table_status option) \<Rightarrow> string \<Rightarrow> bool" where
  "uploaded_tables tableStatuses tableName =
     (case tableStatuses tableName of Some status \<Rightarrow> Uploaded status | None \<Rightarrow> False)"

text \<open>
  The service: the per-file locks (\<^verbatim>\<open>sync.Map\<close>), the files on disk by path, the status
  manager, the files the archiver has taken, the destinations by id (\<open>None\<close>: not found;
  \<open>Some None\<close>: the proxy has no storage yet), the state of each destination, and the
  two metrics counters. \<^verbatim>\<open>path.Join\<close> and the outcome of the archiver are given by the
  environment.
\<close>

record 'w service =
  file_locks :: "string set"
  files :: "string \<Rightarrow> string option"
  statuses :: status_manager
  archive :: "(string \<times> string) list"
  destinations :: "string \<Rightarrow> 'w storage option option"
  dest_states :: "string \<Rightarrow> 'w dest_state"
  metric_errors :: nat
  metric_successes :: nat

record replay_env =
  fallbackDir :: string
  path_Join :: "string \<Rightarrow> string \<Rightarrow> string"
  archive_error :: "string \<Rightarrow> string option"

datatype replay_error =
    EmptyFileName
  | BeingProcessed string
  | ReadError string
  | MalformedName string
  | DestinationNotFound string
  | NotInitialized string
  | StagedDestination string
  | StoreError string string string
  | MultiError "string list"

text \<open>Modelled from the spec: \<^verbatim>\<open>Archiver.ArchiveByPath\<close> (not among the sources),
  "archives on full success": the file leaves its path and is kept by the archiver.\<close>

definition ArchiveByPath :: "string \<Rightarrow> string \<Rightarrow> 'w service \<Rightarrow> 'w service" where
  "ArchiveByPath filePath content s =
     s\<lparr>files := (files s)(filePath := None), archive := archive s @ [(filePath, content)]\<rparr>"

definition lock_name :: "string \<Rightarrow> string" where
  "lock_name fileName = (if has_prefix ''/'' fileName then Base fileName else fileName)"

definition file_path :: "replay_env \<Rightarrow> string \<Rightarrow> string" where
  "file_path env fileName =
     (if has_prefix ''/'' fileName then fileName else path_Join env (fallbackDir env) fileName)"

definition resolve_destination :: "string \<Rightarrow> string \<Rightarrow> string option" where
  "resolve_destination destinationID fileName =
     (if destinationID = [] then extractDestinationID fileName else Some destinationID)"

text \<open>The loop over \<^verbatim>\<open>resultPerTable\<close>; the entries come in the order in which \<^verbatim>\<open>range\<close>
  yields them.\<close>

fun record_results ::
  "string \<Rightarrow> string \<Rightarrow> (string \<times> store_result) list \<Rightarrow> string list \<Rightarrow> 'w service
     \<Rightarrow> string list \<times> 'w service" where
  "record_results fileName storageName [] multiErr s = (multiErr, s)"
| "record_results fileName storageName ((tableName, result) # rest) multiErr s =
     (case Err result of
        Some e \<Rightarrow>
          record_results fileName storageName rest (multiErr @ [e])
            (s\<lparr>metric_errors := metric_errors s + RowsCount result,
               statuses := UpdateStatus (statuses s) fileName storageName tableName (Err result)\<rparr>)
      | None \<Rightarrow>
          record_results fileName storageName rest multiErr
            (s\<lparr>metric_successes := metric_successes s + RowsCount result,
               statuses := UpdateStatus (statuses s) fileName storageName tableName (Err result)\<rparr>))"

text \<open>\<^verbatim>\<open>Replay\<close> from the point where it holds the lock of the file.\<close>

definition replay_locked ::
  "replay_env \<Rightarrow> string \<Rightarrow> string \<Rightarrow> string \<Rightarrow> bool \<Rightarrow> 'w service \<Rightarrow> replay_error option \<times> 'w service" where
  "replay_locked env filePath fileName destinationID0 rawFile s =
     (case files s filePath of
        None \<Rightarrow> (Some (ReadError fileName), s)
      | Some b \<Rightarrow>
          (case resolve_destination destinationID0 fileName of
             None \<Rightarrow> (Some (MalformedName fileName), s)
           | Some destinationID \<Rightarrow>
               (case destinations s destinationID of
                  None \<Rightarrow> (Some (DestinationNotFound destinationID), s)
                | Some None \<Rightarrow> (Some (NotInitialized destinationID), s)
                | Some (Some storage) \<Rightarrow>
                    if is_staging storage then (Some (StagedDestination destinationID), s)
                    else
                      (let alreadyUploadedTables =
                             uploaded_tables (GetTablesStatuses (statuses s) fileName (storage_name storage))
                       in case store_file storage fileName b alreadyUploadedTables rawFile
                                 (dest_states s destinationID) of
                            ((resultPerTable, errRowsCount, err), dst') \<Rightarrow>
                              (let s1 = s\<lparr>dest_states := (dest_states s)(destinationID := dst'),
                                          metric_errors := metric_errors s + errRowsCount\<rparr>
                               in case err of
                                    Some e \<Rightarrow> (Some (StoreError (storage_name storage) fileName e), s1)
                                  | None \<Rightarrow>
                                      (case record_results fileName (storage_name storage)
                                              resultPerTable [] s1 of
                                         (multiErr, s2) \<Rightarrow>
                                           if multiErr = [] then
                                             (case archive_error env filePath of
                                                Some archiveErr \<Rightarrow> (None, s2)
                                              | None \<Rightarrow>
                                                  (None, (ArchiveByPath filePath b s2)
                                                     \<lparr>statuses := CleanUp (statuses s2) fileName\<rparr>))
                                           else (Some (MultiError multiErr), s2)))))))"

definition Replay ::
  "replay_env \<Rightarrow> string \<Rightarrow> string \<Rightarrow> bool \<Rightarrow> 'w service \<Rightarrow> replay_error option \<times> 'w service" where
  "Replay env fileName destinationID rawFile s =
     (if fileName = [] then (Some EmptyFileName, s)
      else if lock_name fileName \<in> file_locks s then (Some (BeingProcessed (lock_name fileName)), s)
      else
        (case replay_locked env (file_path env fileName) (lock_name fileName) destinationID rawFile
                (s\<lparr>file_locks := insert (lock_name fileName) (file_locks s)\<rparr>) of
           (r, s') \<Rightarrow> (r, s'\<lparr>file_locks := file_locks s' - {lock_name fileName}\<rparr>)))"


subsection \<open>A fallback service for the examples\<close>

definition failed_file :: string where
  "failed_file = ''failed.dst=pg-2021-01-01T00-00-00.log''"

definition example_env :: replay_env where
  "example_env =
     \<lparr>fallbackDir = ''/logs/failed'',
      path_Join = (\<lambda>dir name. dir @ ''/'' @ name),
      archive_error = (\<lambda>path. None)\<rparr>"

definition example_service :: "nat postgres \<Rightarrow> nat service" where
  "example_service p =
     \<lparr>file_locks = {},
      files = [''/logs/failed/failed.dst=pg-2021-01-01T00-00-00.log'' \<mapsto> ''bytes''],
      statuses = (\<lambda>fileName storageName. Map.empty),
      archive = [],
      destinations = [''pg'' \<mapsto> Some (postgres_storage p)],
      dest_states = (\<lambda>destinationID. \<lparr>sink = 0, events_cache = [], fallback_log = []\<rparr>),
      metric_errors = 0,
      metric_successes = 0\<rparr>"

lemmas replay_example_defs = failed_file_def example_env_def example_service_def
  Replay_def replay_locked_def lock_name_def file_path_def resolve_destination_def
  prefix_at_def date_at_def is_digit_def uploaded_tables_def GetTablesStatuses_def
  UpdateStatus_def CleanUp_def ArchiveByPath_def


section \<open>BigQuery batch worker (storages/bigquery.go)\<close>

text \<open>
  The state the loop of \<^verbatim>\<open>startBatch\<close> works on: the keys of the staged objects in the
  bucket (what \<^verbatim>\<open>ListBucket\<close> returns), the loads BigQuery has accepted, as pairs of
  file key and table in the order of the \<^verbatim>\<open>Copy\<close> calls, and the counters. The
  environment of one tick says which calls fail; \<^verbatim>\<open>extractDataFromFileName\<close> is not
  among the sources and belongs to the environment as well: it yields the table name,
  the token id and the rows count, or \<open>None\<close> for a malformed name.
\<close>

record bq_state =
  bucket :: "string list"
  loaded :: "(string \<times> string) list"
  bq_closed :: bool
  bq_success_events :: nat
  bq_error_events :: nat

record bq_env =
  list_error :: "string option"
  extractDataFromFileName :: "string \<Rightarrow> (string \<times> string \<times> nat) option"
  copy_error :: "string \<Rightarrow> string \<Rightarrow> string option"
  delete_error :: "string \<Rightarrow> string option"

fun process_files :: "bq_env \<Rightarrow> string list \<Rightarrow> bq_state \<Rightarrow> bq_state" where
  "process_files env [] st = st"
| "process_files env (fileKey # rest) st =
     (case extractDataFromFileName env fileKey of
        None \<Rightarrow> process_files env rest st
      | Some (tableName, tokenId, rowsCount) \<Rightarrow>
          (case copy_error env fileKey tableName of
             Some err \<Rightarrow>
               process_files env rest (st\<lparr>bq_error_events := bq_error_events st + rowsCount\<rparr>)
           | None \<Rightarrow>
               (let st1 = st\<lparr>loaded := loaded st @ [(fileKey, tableName)],
                              bq_success_events := bq_success_events st + rowsCount\<rparr>
                in case delete_error env fileKey of
                     Some err \<Rightarrow> process_files env rest st1
                   | None \<Rightarrow>
                       process_files env rest
                         (st1\<lparr>bucket := filter (\<lambda>k. k \<noteq> fileKey) (bucket st1)\<rparr>))))"

text \<open>One turn of the loop after its sleep.\<close>

definition batch_tick :: "bq_env \<Rightarrow> bq_state \<Rightarrow> bq_state" where
  "batch_tick env st =
     (case list_error env of
        Some err \<Rightarrow> st
      | None \<Rightarrow> if length (bucket st) = 0 then st else process_files env (bucket st) st)"

text \<open>The loop, one environment per turn.\<close>

fun startBatch :: "bq_env list \<Rightarrow> bq_state \<Rightarrow> bq_state" where
  "startBatch [] st = st"
| "startBatch (env # envs) st = (if bq_closed st then st else startBatch envs (batch_tick env st))"

text \<open>The file \<open>f\<close> is loaded in a turn with environment \<open>env\<close>: its name is well formed
  and the copy succeeds.\<close>

definition loads :: "bq_env \<Rightarrow> string \<Rightarrow> bool" where
  "loads env f =
     (case extractDataFromFileName env f of
        None \<Rightarrow> False
      | Some (tableName, tokenId, rowsCount) \<Rightarrow> copy_error env f tableName = None)"

definition table_of :: "bq_env \<Rightarrow> string \<Rightarrow> string" where
  "table_of env f =
     (case extractDataFromFileName env f of
        None \<Rightarrow> []
      | Some (tableName, tokenId, rowsCount) \<Rightarrow> tableName)"

definition staged_name :: "string \<Rightarrow> (string \<times> string \<times> nat) option" where
  "staged_name f = (if f = ''users-tok-5-2021-01-01T00-00-00.ndjson'' then Some (''users'', ''tok'', 5) else None)"

definition bq_tick_env :: "bool \<Rightarrow> bq_env" where
  "bq_tick_env delete_fails =
     \<lparr>list_error = None, extractDataFromFileName = staged_name,
      copy_error = (\<lambda>f t. None),
      delete_error = (\<lambda>f. if delete_fails then Some ''googleapi: Error 503'' else None)\<rparr>"


section \<open>Coordination: results\<close>

lemma lockWithRetry_unfold_retry:
  assumes "getIdentifier s c \<in> locks" and "k < 3"
    and "lockWithRetry others s c (Suc k) (others k locks) = (r, locks', m)"
  shows "lockWithRetry others s c k locks = (r, locks', Suc m)"
  using assms by (subst lockWithRetry.simps) simp

lemma lockWithRetry_slept: "snd (snd (lockWithRetry others s c k locks)) \<le> 3 - k"
proof (induction others s c k locks rule: lockWithRetry.induct)
  case (1 others system collection retryCount locks)
  show ?case
  proof (cases "getIdentifier system collection \<in> locks \<and> retryCount < 3")
    case True
    obtain r l m where eq:
      "lockWithRetry others system collection (Suc retryCount) (others retryCount locks) = (r, l, m)"
      by (cases "lockWithRetry others system collection (Suc retryCount) (others retryCount locks)")
    from True 1 have "snd (snd (lockWithRetry others system collection (retryCount + 1) (others retryCount locks)))
        \<le> 3 - (retryCount + 1)" by simp
    with eq have "m \<le> 3 - Suc retryCount" by simp
    moreover have "lockWithRetry others system collection retryCount locks = (r, l, Suc m)"
      using True eq by (simp add: lockWithRetry_unfold_retry)
    ultimately show ?thesis using True by auto
  next
    case False
    then show ?thesis by (subst lockWithRetry.simps) auto
  qed
qed

lemma lockWithRetry_acquired:
  "lockWithRetry others s c k locks = (Inr i, locks', n) \<Longrightarrow> i = getIdentifier s c \<and> i \<in> locks'"
proof (induction others s c k locks arbitrary: n rule: lockWithRetry.induct)
  case (1 others system collection retryCount locks)
  show ?case
  proof (cases "getIdentifier system collection \<in> locks \<and> retryCount < 3")
    case True
    obtain r l m where eq:
      "lockWithRetry others system collection (Suc retryCount) (others retryCount locks) = (r, l, m)"
      by (cases "lockWithRetry others system collection (Suc retryCount) (others retryCount locks)")
    with True have "lockWithRetry others system collection retryCount locks = (r, l, Suc m)"
      by (simp add: lockWithRetry_unfold_retry)
    with "1.prems" have "r = Inr i" "l = locks'" by simp_all
    with eq have "lockWithRetry others system collection (retryCount + 1) (others retryCount locks) = (Inr i, locks', m)"
      by simp
    moreover from True have "getIdentifier system collection \<in> locks" "\<not> 3 \<le> retryCount"
      by auto
    ultimately show ?thesis by (rule "1.IH" [rotated 2])
  next
    case False
    with "1.prems" show ?thesis by (subst (asm) lockWithRetry.simps) (auto split: if_splits)
  qed
qed

text \<open>
  C3 (amended). \<^verbatim>\<open>TryLock\<close> enters \<^verbatim>\<open>lockWithRetry\<close> with \<open>retryCount = 3\<close>: it makes one
  attempt, never sleeps, and returns the already-locked error at once when the key is
  present. \<^verbatim>\<open>Lock\<close> enters with \<open>retryCount = 0\<close>: it sleeps one second after each failed
  attempt, at most three times, and returns the already-locked error when the key is
  present at each of its four attempts; a lock it returns is stored in the map.
\<close>

theorem lock_bounded_retries:
  "TryLock others s c locks =
     (if getIdentifier s c \<in> locks then (Inl (AlreadyLocked s c), locks, 0)
      else (Inr (getIdentifier s c), insert (getIdentifier s c) locks, 0))
   \<and> snd (snd (Lock others s c locks)) \<le> 3
   \<and> ((\<forall>k \<le> 3. getIdentifier s c \<in> locks_at others locks k) \<longrightarrow>
        Lock others s c locks = (Inl (AlreadyLocked s c), locks_at others locks 3, 3))
   \<and> (\<forall>i locks' n. Lock others s c locks = (Inr i, locks', n) \<longrightarrow>
        i = getIdentifier s c \<and> i \<in> locks')"
proof (intro conjI)
  show "TryLock others s c locks =
     (if getIdentifier s c \<in> locks then (Inl (AlreadyLocked s c), locks, 0)
      else (Inr (getIdentifier s c), insert (getIdentifier s c) locks, 0))"
    unfolding TryLock_def by (subst lockWithRetry.simps) simp
  show "snd (snd (Lock others s c locks)) \<le> 3"
    unfolding Lock_def using lockWithRetry_slept [of others s c 0 locks] by simp
  show "(\<forall>k \<le> 3. getIdentifier s c \<in> locks_at others locks k) \<longrightarrow>
        Lock others s c locks = (Inl (AlreadyLocked s c), locks_at others locks 3, 3)"
  proof
    assume held: "\<forall>k \<le> 3. getIdentifier s c \<in> locks_at others locks k"
    have h0: "getIdentifier s c \<in> locks"
      using held [rule_format, of 0] by simp
    have h1: "getIdentifier s c \<in> others 0 locks"
      using held [rule_format, of "Suc 0"] by simp
    have h2: "getIdentifier s c \<in> others (Suc 0) (others 0 locks)"
      using held [rule_format, of "Suc (Suc 0)"] by simp
    have h3: "getIdentifier s c \<in> others (Suc (Suc 0)) (others (Suc 0) (others 0 locks))"
      using held [rule_format, of "Suc (Suc (Suc 0))"] by simp
    have e3: "locks_at others locks 3 = others (Suc (Suc 0)) (others (Suc 0) (others 0 locks))"
      by (simp add: numeral_3_eq_3)
    have a3: "lockWithRetry others s c (Suc (Suc (Suc 0))) (others (Suc (Suc 0)) (others (Suc 0) (others 0 locks)))
        = (Inl (AlreadyLocked s c), locks_at others locks 3, 0)"
      using h3 e3 by (subst lockWithRetry.simps) simp
    have a2: "lockWithRetry others s c (Suc (Suc 0)) (others (Suc 0) (others 0 locks))
        = (Inl (AlreadyLocked s c), locks_at others locks 3, Suc 0)"
      using lockWithRetry_unfold_retry [OF h2 _ a3] by simp
    have a1: "lockWithRetry others s c (Suc 0) (others 0 locks)
        = (Inl (AlreadyLocked s c), locks_at others locks 3, Suc (Suc 0))"
      using lockWithRetry_unfold_retry [OF h1 _ a2] by simp
    have a0: "lockWithRetry others s c 0 locks
        = (Inl (AlreadyLocked s c), locks_at others locks 3, Suc (Suc (Suc 0)))"
      using lockWithRetry_unfold_retry [OF h0 _ a1] by simp
    then show "Lock others s c locks = (Inl (AlreadyLocked s c), locks_at others locks 3, 3)"
      by (simp add: Lock_def numeral_3_eq_3)
  qed
  show "\<forall>i locks' n. Lock others s c locks = (Inr i, locks', n) \<longrightarrow>
        i = getIdentifier s c \<and> i \<in> locks'"
    unfolding Lock_def using lockWithRetry_acquired by blast
qed

lemma locks_at_unchanged: "locks_at (\<lambda>k l. l) locks k = locks"
  by (induction k) simp_all

theorem lock_bounded_retries_witness:
  "Lock (\<lambda>k l. l) ''pg'' ''users'' {''pg_users''}
     = (Inl (AlreadyLocked ''pg'' ''users''), {''pg_users''}, 3)
   \<and> TryLock (\<lambda>k l. l) ''pg'' ''users'' {''pg_users''}
     = (Inl (AlreadyLocked ''pg'' ''users''), {''pg_users''}, 0)
   \<and> TryLock (\<lambda>k l. l) ''pg'' ''users'' {''pg_events''}
     = (Inr ''pg_users'', {''pg_users'', ''pg_events''}, 0)"
  using lock_bounded_retries [of "\<lambda>k l. l" "''pg''" "''users''" "{''pg_users''}"]
    lock_bounded_retries [of "\<lambda>k l. l" "''pg''" "''users''" "{''pg_events''}"]
  by (simp add: locks_at_unchanged getIdentifier_def)

text \<open>
  C3 as stated fails: with the key held throughout, \<^verbatim>\<open>Lock\<close> gives up with the
  already-locked error after three sleeps of one second, and \<^verbatim>\<open>TryLock\<close> returns that
  error without any retry or sleep.
\<close>

theorem lock_retry_forever_counterexample:
  "fst (Lock (\<lambda>k l. l) ''pg'' ''users'' {''pg_users''}) = Inl (AlreadyLocked ''pg'' ''users'')
   \<and> snd (snd (Lock (\<lambda>k l. l) ''pg'' ''users'' {''pg_users''})) = 3
   \<and> fst (TryLock (\<lambda>k l. l) ''pg'' ''users'' {''pg_users''}) = Inl (AlreadyLocked ''pg'' ''users'')
   \<and> snd (snd (TryLock (\<lambda>k l. l) ''pg'' ''users'' {''pg_users''})) = 0"
  by (simp add: Lock_def TryLock_def lockWithRetry.simps getIdentifier_def)


section \<open>SQL adapter: results\<close>

subsection \<open>Rows and statements of the insert loop\<close>

lemma split_rows_Nil [simp]: "split_rows n [] = []"
  by (simp add: split_rows.simps)



lemma length_row_values [simp]: "length (row_values header row) = length header"
  by (simp add: row_values_def)


lemma stmt_rows_insertQuery [simp]:
  "stmt_rows (insertQuery pk tn header args) = split_rows (length header) args"
  by (simp add: stmt_rows_def insertQuery_def)

lemma bound_values_insertQuery [simp]:
  "bound_values (insertQuery pk tn header args) = args"
  by (simp add: bound_values_def insertQuery_def)








subsection \<open>Replaying the statements of a transaction\<close>

lemma run_all_append:
  "run_all ex (xs @ ys) db = (case run_all ex xs db of Inl m \<Rightarrow> Inl m | Inr d \<Rightarrow> run_all ex ys d)"
  by (induction xs arbitrary: db) (auto split: sum.splits)

lemma tx_exec_replay:
  assumes "run_all (exec_stmt e) (issued tx) db = Inr (working tx)"
    and "tx_exec e s tx = (None, tx')"
  shows "run_all (exec_stmt e) (issued tx') db = Inr (working tx')"
  using assms by (auto simp: tx_exec_def run_all_append split: sum.splits)

lemma executeInsert_replay:
  assumes "run_all (exec_stmt e) (issued tx) db = Inr (working tx)"
    and "executeInsert e t header args tx = (None, tx')"
  shows "run_all (exec_stmt e) (issued tx') db = Inr (working tx')"
proof -
  from assms(2) have "tx_exec e (insertQuery (GetPKFields t) (Name t) header args) tx = (None, tx')"
    by (auto simp: executeInsert_def split: prod.splits option.splits)
  with assms(1) show ?thesis by (rule tx_exec_replay)
qed

lemma bulkInsertLoop_replay:
  assumes "run_all (exec_stmt e) (issued tx) db = Inr (working tx)"
    and "bulkInsertLoop e t header rows valueArgs tx = (None, va, tx')"
  shows "run_all (exec_stmt e) (issued tx') db = Inr (working tx')"
  using assms
proof (induction rows arbitrary: valueArgs tx)
  case Nil
  then show ?case by simp
next
  case (Cons row rows)
  show ?case
  proof (cases "length valueArgs + length header > mysqlValuesLimit")
    case True
    obtain r1 tx1 where ex: "executeInsert e t header valueArgs tx = (r1, tx1)"
      by (cases "executeInsert e t header valueArgs tx")
    with True Cons.prems(2) have r1: "r1 = None" by (cases r1) auto
    with True ex Cons.prems(2) have
      l: "bulkInsertLoop e t header rows (row_values header row) tx1 = (None, va, tx')" by simp
    from ex r1 have "run_all (exec_stmt e) (issued tx1) db = Inr (working tx1)"
      using executeInsert_replay [OF Cons.prems(1)] by simp
    from Cons.IH [OF this l] show ?thesis .
  next
    case False
    with Cons.prems(2) have
      "bulkInsertLoop e t header rows (valueArgs @ row_values header row) tx = (None, va, tx')" by simp
    from Cons.IH [OF Cons.prems(1) this] show ?thesis .
  qed
qed

lemma bulkMergeLoop_replay:
  assumes "run_all (exec_stmt e) (issued tx) db = Inr (working tx)"
    and "bulkMergeLoop e t header rows tx = (None, tx')"
  shows "run_all (exec_stmt e) (issued tx') db = Inr (working tx')"
  using assms
proof (induction rows arbitrary: tx)
  case Nil
  then show ?case by simp
next
  case (Cons row rows)
  obtain r1 tx1 where ex: "tx_exec e (MergeStmt (Name t) header (row_values header row)) tx = (r1, tx1)"
    by (cases "tx_exec e (MergeStmt (Name t) header (row_values header row)) tx")
  with Cons.prems(2) have r1: "r1 = None" by (cases r1) auto
  with ex Cons.prems(2) have l: "bulkMergeLoop e t header rows tx1 = (None, tx')" by simp
  from ex r1 have "run_all (exec_stmt e) (issued tx1) db = Inr (working tx1)"
    using tx_exec_replay [OF Cons.prems(1)] by simp
  from Cons.IH [OF this l] show ?case .
qed

lemma bulkStoreInTransaction_replay:
  assumes "run_all (exec_stmt e) (issued tx) db = Inr (working tx)"
    and "bulkStoreInTransaction e t objects tx = (None, tx')"
  shows "run_all (exec_stmt e) (issued tx') db = Inr (working tx')"
proof (cases "length (PKFields t) = 0")
  case True
  with assms(2) have b: "bulkInsertInTransaction e t objects tx = (None, tx')"
    by (simp add: bulkStoreInTransaction_def)
  obtain r1 va tx1 where loop: "bulkInsertLoop e t (map fst (Columns t)) objects [] tx = (r1, va, tx1)"
    by (cases "bulkInsertLoop e t (map fst (Columns t)) objects [] tx")
  with b have r1: "r1 = None"
    by (cases r1) (auto simp: bulkInsertInTransaction_def)
  with loop have i1: "run_all (exec_stmt e) (issued tx1) db = Inr (working tx1)"
    using bulkInsertLoop_replay [OF assms(1)] by simp
  show ?thesis
  proof (cases "length va > 0")
    case True
    with b loop r1 have "executeInsert e t (map fst (Columns t)) va tx1 = (None, tx')"
      by (simp add: bulkInsertInTransaction_def)
    with i1 show ?thesis by (rule executeInsert_replay)
  next
    case False
    with b loop r1 have "tx' = tx1" by (simp add: bulkInsertInTransaction_def)
    with i1 show ?thesis by simp
  qed
next
  case False
  with assms(2) have "bulkMergeInTransaction e t objects tx = (None, tx')"
    by (simp add: bulkStoreInTransaction_def)
  then have "bulkMergeLoop e t (map fst (Columns t)) objects tx = (None, tx')"
    by (auto simp: bulkMergeInTransaction_def Let_def split: option.splits)
  with assms(1) show ?thesis by (rule bulkMergeLoop_replay)
qed

lemma deleteInTransaction_replay:
  assumes "run_all (exec_stmt e) (issued tx) db = Inr (working tx)"
    and "deleteInTransaction e t dc tx = (None, tx')"
  shows "run_all (exec_stmt e) (issued tx') db = Inr (working tx')"
proof -
  from assms(2) have "tx_exec e (DeleteStmt (Name t) (fst dc) (snd dc)) tx = (None, tx')"
    by (auto simp: deleteInTransaction_def Let_def split: option.splits prod.splits)
  with assms(1) show ?thesis by (rule tx_exec_replay)
qed

lemma BulkInsert_cases:
  "(\<exists>err stmts. BulkInsert e t objects db = (Some err, db, stmts))
   \<or> (\<exists>db' stmts. BulkInsert e t objects db = (None, db', stmts)
         \<and> run_all (exec_stmt e) stmts db = Inr db')"
proof (cases "open_error e")
  case (Some m)
  then show ?thesis by (simp add: BulkInsert_def OpenTx_def)
next
  case None
  let ?tx = "\<lparr>working = db, issued = []\<rparr>"
  obtain r tx' where st: "bulkStoreInTransaction e t objects ?tx = (r, tx')"
    by (cases "bulkStoreInTransaction e t objects ?tx")
  show ?thesis
  proof (cases r)
    case (Some err)
    with None st show ?thesis by (simp add: BulkInsert_def OpenTx_def Rollback_def)
  next
    case n: None
    have "run_all (exec_stmt e) (issued ?tx) db = Inr (working ?tx)" by simp
    from bulkStoreInTransaction_replay [OF this] st n
    have "run_all (exec_stmt e) (issued tx') db = Inr (working tx')" by simp
    with None st n show ?thesis
      by (cases "commit_error e") (simp_all add: BulkInsert_def OpenTx_def DirectCommit_def)
  qed
qed

lemma BulkUpdate_cases:
  "(\<exists>err stmts. BulkUpdate e t objects dc db = (Some err, db, stmts))
   \<or> (\<exists>db' stmts. BulkUpdate e t objects dc db = (None, db', stmts)
         \<and> run_all (exec_stmt e) stmts db = Inr db')"
proof (cases "open_error e")
  case (Some m)
  then show ?thesis by (simp add: BulkUpdate_def OpenTx_def)
next
  case None
  let ?tx = "\<lparr>working = db, issued = []\<rparr>"
  let ?del = "case dc of None \<Rightarrow> (None, ?tx) | Some c \<Rightarrow> deleteInTransaction e t c ?tx"
  obtain r0 tx0 where del: "?del = (r0, tx0)" by (cases ?del)
  have i: "run_all (exec_stmt e) (issued ?tx) db = Inr (working ?tx)" by simp
  show ?thesis
  proof (cases r0)
    case (Some err)
    with None del show ?thesis by (simp add: BulkUpdate_def OpenTx_def Rollback_def)
  next
    case n0: None
    have i0: "run_all (exec_stmt e) (issued tx0) db = Inr (working tx0)"
    proof (cases dc)
      case None
      with del show ?thesis by auto
    next
      case (Some c)
      with del n0 have "deleteInTransaction e t c ?tx = (None, tx0)" by simp
      with i show ?thesis by (rule deleteInTransaction_replay)
    qed
    obtain r tx' where st: "bulkStoreInTransaction e t objects tx0 = (r, tx')"
      by (cases "bulkStoreInTransaction e t objects tx0")
    show ?thesis
    proof (cases r)
      case (Some err)
      with None del n0 st show ?thesis by (simp add: BulkUpdate_def OpenTx_def Rollback_def)
    next
      case n: None
      from bulkStoreInTransaction_replay [OF i0] st n
      have "run_all (exec_stmt e) (issued tx') db = Inr (working tx')" by simp
      with None del n0 st n show ?thesis
        by (cases "commit_error e") (simp_all add: BulkUpdate_def OpenTx_def DirectCommit_def)
    qed
  qed
qed

subsection \<open>What the engine stores\<close>




















subsection \<open>Sub-batches of the bulk insert\<close>






subsection \<open>One transaction\<close>

text \<open>
  C6. \<^verbatim>\<open>BulkInsert\<close> and \<^verbatim>\<open>BulkUpdate\<close> run their statements in one transaction: when
  they return no error, every statement sent succeeded and the database is the result
  of running them all in order (the commit); when they return an error the database is
  as it was before the call (the rollback); and when a statement sent fails, an error is
  returned and the database is as it was.
\<close>

theorem bulk_store_transactional:
  "(case BulkInsert e t objects db of (r, db', stmts) \<Rightarrow>
      (r = None \<longrightarrow> run_all (exec_stmt e) stmts db = Inr db')
      \<and> (r \<noteq> None \<longrightarrow> db' = db)
      \<and> (\<forall>m. run_all (exec_stmt e) stmts db = Inl m \<longrightarrow> r \<noteq> None \<and> db' = db))
   \<and> (case BulkUpdate e t objects deleteConditions db of (r, db', stmts) \<Rightarrow>
      (r = None \<longrightarrow> run_all (exec_stmt e) stmts db = Inr db')
      \<and> (r \<noteq> None \<longrightarrow> db' = db)
      \<and> (\<forall>m. run_all (exec_stmt e) stmts db = Inl m \<longrightarrow> r \<noteq> None \<and> db' = db))"
  using BulkInsert_cases [of e t objects db] BulkUpdate_cases [of e t objects deleteConditions db]
  by auto

theorem bulk_store_transactional_witness:
  "BulkInsert pg_engine (users_table []) [user_row, user_row] (users_db [''email''])
     = (Some (Driver ''duplicate key value violates unique constraint''), users_db [''email''],
        [InsertStmt ''users'' [''email'', ''name''] [Str ''a@x'', Str ''A'', Str ''a@x'', Str ''A'']])
   \<and> run_all (exec_stmt pg_engine)
        [InsertStmt ''users'' [''email'', ''name''] [Str ''a@x'', Str ''A'', Str ''a@x'', Str ''A'']]
        (users_db [''email''])
     = Inl ''duplicate key value violates unique constraint''
   \<and> BulkUpdate pg_engine (users_table [''email'']) [user_row]
        (Some ([(''name'', ''='', Str ''A'')], '' AND '')) (users_db [''email''])
     = (None, [''users'' \<mapsto> \<lparr>pk_constraint = [''email''], stored =
          [[(''email'', Str ''a@x''), (''name'', Str ''A'')]]\<rparr>],
        [DeleteStmt ''users'' [(''name'', ''='', Str ''A'')] '' AND '',
         MergeStmt ''users'' [''email'', ''name''] [Str ''a@x'', Str ''A'']])"
  using bulk_store_transactional [where e = pg_engine and t = "users_table []"
      and objects = "[user_row, user_row]" and db = "users_db [''email'']"
      and deleteConditions = None]
    bulk_store_transactional [where e = pg_engine and t = "users_table [''email'']"
      and objects = "[user_row]" and db = "users_db [''email'']"
      and deleteConditions = "Some ([(''name'', ''='', Str ''A'')], '' AND '')"]
  by (simp add: example_defs)

subsection \<open>Insert or merge, by primary key\<close>






section \<open>Streaming worker: results\<close>

lemma process_dequeued_insert_error:
  assumes "\<not> now < dequeuedTime"
    and "ProcessEvent sw evt = Inr (batchHeader, flattenObject)"
    and "Exists batchHeader"
    and "getTableHelper sw rnd = Some mapTableSchema"
    and "insert_event (streamingStorage sw) (mapTableSchema batchHeader) flattenObject (sink st) = (Some err, w')"
  shows "process_dequeued sw now now' rnd evt dequeuedTime tokenID st =
     (if is_transient err
      then st\<lparr>sink := w',
              queue := queue st @ [(evt, now' + 20, tokenID)],
              error_events := error_events st + 1,
              events_cache := events_cache st
                 @ [CacheError (storage_name (streamingStorage sw)) (event_id sw evt) err],
              error_tokens := error_tokens st @ [tokenID]\<rparr>
      else st\<lparr>sink := w',
              fallback_log := fallback_log st
                 @ [\<lparr>Event = Serialize sw evt, Error = err, EventID = event_id sw flattenObject\<rparr>],
              error_events := error_events st + 1,
              events_cache := events_cache st
                 @ [CacheError (storage_name (streamingStorage sw)) (event_id sw evt) err],
              error_tokens := error_tokens st @ [tokenID]\<rparr>)"
  using assms
  by (simp add: process_dequeued_def Let_def ConsumeTimed_def worker_Fallback_def cache_Error_def)

text \<open>
  C1 (amended). When the insert of a processed event fails in the streaming worker, the
  error counter goes up by one and the events cache gets an error entry for the event
  id of the dequeued event with the error text. If the error text contains one of
  \<open>connection refused\<close>, \<open>EOF\<close>, \<open>write: broken pipe\<close>, \<open>context deadline exceeded\<close>,
  \<open>connection reset by peer\<close>, the event is put back on the queue with
  \<open>notBefore = now + 20\<close> seconds and nothing goes to the fallback logger; otherwise the
  fallback logger gets a failed event with the serialized event, the error text and the
  event id of the flattened object, and the queue is left alone.
\<close>

theorem insert_error_routing:
  assumes "\<not> now < dequeuedTime"
    and "ProcessEvent sw evt = Inr (batchHeader, flattenObject)"
    and "Exists batchHeader"
    and "getTableHelper sw rnd = Some mapTableSchema"
    and "insert_event (streamingStorage sw) (mapTableSchema batchHeader) flattenObject (sink st) = (Some err, w')"
    and "st' = process_dequeued sw now now' rnd evt dequeuedTime tokenID st"
  shows "error_events st' = error_events st + 1
     \<and> events_cache st' = events_cache st
          @ [CacheError (storage_name (streamingStorage sw)) (event_id sw evt) err]
     \<and> (is_transient err \<longrightarrow>
          queue st' = queue st @ [(evt, now' + 20, tokenID)] \<and> fallback_log st' = fallback_log st)
     \<and> (\<not> is_transient err \<longrightarrow>
          fallback_log st' = fallback_log st
             @ [\<lparr>Event = Serialize sw evt, Error = err, EventID = event_id sw flattenObject\<rparr>]
          \<and> queue st' = queue st)"
  using process_dequeued_insert_error [OF assms(1-5), of now' tokenID] assms(6)
  by simp

theorem insert_error_routing_witness:
  "process_dequeued (flaky_worker 2 ''read tcp: connection reset by peer'' False) 100 101 7
      [''id'' \<mapsto> Str ''e1''] 0 ''tok'' (idle_state [])
   = (idle_state [([''id'' \<mapsto> Str ''e1''], 121, ''tok'')])
       \<lparr>sink := 2, error_events := 1,
        events_cache := [CacheError ''pg'' ''e1'' ''read tcp: connection reset by peer''],
        error_tokens := [''tok'']\<rparr>
   \<and> process_dequeued (flaky_worker 2 ''syntax error'' False) 100 101 7
      [''id'' \<mapsto> Str ''e1''] 0 ''tok'' (idle_state [])
   = (idle_state [])
       \<lparr>sink := 2, error_events := 1,
        fallback_log := [\<lparr>Event = ''{id:e1}'', Error = ''syntax error'', EventID = ''e1''\<rparr>],
        events_cache := [CacheError ''pg'' ''e1'' ''syntax error''],
        error_tokens := [''tok'']\<rparr>"
  using insert_error_routing [where sw = "flaky_worker 2 ''read tcp: connection reset by peer'' False"
      and now = 100 and now' = 101 and rnd = 7 and dequeuedTime = 0 and tokenID = "''tok''"
      and evt = "[''id'' \<mapsto> Str ''e1'']" and flattenObject = "[''id'' \<mapsto> Str ''e1'']"
      and batchHeader = "\<lparr>TableName = ''events'', Fields = [(''id'', ''text'')]\<rparr>"
      and mapTableSchema = plain_table and st = "idle_state []"
      and err = "''read tcp: connection reset by peer''" and w' = 2
      and st' = "process_dequeued (flaky_worker 2 ''read tcp: connection reset by peer'' False) 100 101 7
                   [''id'' \<mapsto> Str ''e1''] 0 ''tok'' (idle_state [])"]
    insert_error_routing [where sw = "flaky_worker 2 ''syntax error'' False"
      and now = 100 and now' = 101 and rnd = 7 and dequeuedTime = 0 and tokenID = "''tok''"
      and evt = "[''id'' \<mapsto> Str ''e1'']" and flattenObject = "[''id'' \<mapsto> Str ''e1'']"
      and batchHeader = "\<lparr>TableName = ''events'', Fields = [(''id'', ''text'')]\<rparr>"
      and mapTableSchema = plain_table and st = "idle_state []"
      and err = "''syntax error''" and w' = 2
      and st' = "process_dequeued (flaky_worker 2 ''syntax error'' False) 100 101 7
                   [''id'' \<mapsto> Str ''e1''] 0 ''tok'' (idle_state [])"]
  by (simp add: worker_example_defs)

text \<open>
  C1 as stated fails: texts that match \<open>broken pipe\<close>, \<open>deadline exceeded\<close> or
  \<open>connection reset\<close> without the longer substrings the worker tests for are not
  re-enqueued but sent to the fallback logger.
\<close>

theorem insert_error_routing_counterexample:
  "spec_transient ''read: broken pipe''
   \<and> spec_transient ''rpc error: deadline exceeded''
   \<and> spec_transient ''http2: connection reset''
   \<and> process_dequeued (flaky_worker 2 ''read: broken pipe'' False) 100 101 7
        [''id'' \<mapsto> Str ''e1''] 0 ''tok'' (idle_state [])
      = (idle_state [])
         \<lparr>sink := 2, error_events := 1,
          fallback_log := [\<lparr>Event = ''{id:e1}'', Error = ''read: broken pipe'', EventID = ''e1''\<rparr>],
          events_cache := [CacheError ''pg'' ''e1'' ''read: broken pipe''],
          error_tokens := [''tok'']\<rparr>
   \<and> queue (process_dequeued (flaky_worker 2 ''rpc error: deadline exceeded'' False) 100 101 7
        [''id'' \<mapsto> Str ''e1''] 0 ''tok'' (idle_state [])) = []
   \<and> queue (process_dequeued (flaky_worker 2 ''http2: connection reset'' False) 100 101 7
        [''id'' \<mapsto> Str ''e1''] 0 ''tok'' (idle_state [])) = []"
  by (simp add: worker_example_defs)


section \<open>Postgres storage: results\<close>

text \<open>
  C8. \<^verbatim>\<open>Postgres.Insert\<close> calls the adapter's insert at most twice. It first ensures
  the table and returns that error if there is one. When the first insert succeeds it
  returns no error. When the first insert fails it refreshes the table schema, ensures
  the table again and inserts once more: the error of the refresh, of the second ensure
  or else the outcome of the second insert is what it returns. In the streaming worker
  an error it returns sends the event back to the queue (transient text) or to the
  fallback logger.
\<close>

theorem postgres_insert_retry_once:
  "length (filter (\<lambda>c. c = InsertCall) (snd (snd (Postgres_Insert p tbl ev w)))) \<le> 2
   \<and> (EnsureTable (pg_tableHelper p) (pg_name p) tbl w = (Inl e0, w1) \<longrightarrow>
        Postgres_Insert p tbl ev w = (Some e0, w1, [EnsureCall]))
   \<and> (EnsureTable (pg_tableHelper p) (pg_name p) tbl w = (Inr d1, w1) \<longrightarrow>
        (adapter_Insert (pg_adapter p) d1 ev w1 = (None, w2) \<longrightarrow>
           Postgres_Insert p tbl ev w = (None, w2, [EnsureCall, InsertCall]))
        \<and> (adapter_Insert (pg_adapter p) d1 ev w1 = (Some e1, w2) \<longrightarrow>
             (RefreshTableSchema (pg_tableHelper p) (pg_name p) tbl w2 = (Inl e2, w3) \<longrightarrow>
                Postgres_Insert p tbl ev w = (Some e2, w3, [EnsureCall, InsertCall, RefreshCall]))
             \<and> (RefreshTableSchema (pg_tableHelper p) (pg_name p) tbl w2 = (Inr d2, w3) \<longrightarrow>
                  (EnsureTable (pg_tableHelper p) (pg_name p) tbl w3 = (Inl e3, w4) \<longrightarrow>
                     Postgres_Insert p tbl ev w
                       = (Some e3, w4, [EnsureCall, InsertCall, RefreshCall, EnsureCall]))
                  \<and> (EnsureTable (pg_tableHelper p) (pg_name p) tbl w3 = (Inr d3, w4) \<longrightarrow>
                       adapter_Insert (pg_adapter p) d3 ev w4 = (r5, w5) \<longrightarrow>
                       Postgres_Insert p tbl ev w
                         = (r5, w5, [EnsureCall, InsertCall, RefreshCall, EnsureCall, InsertCall])))))
   \<and> (\<forall>sw now now' rnd evt dequeuedTime tokenID batchHeader flattenObject mapTableSchema st err w' calls.
        streamingStorage sw = postgres_storage p \<longrightarrow>
        \<not> now < dequeuedTime \<longrightarrow>
        ProcessEvent sw evt = Inr (batchHeader, flattenObject) \<longrightarrow>
        Exists batchHeader \<longrightarrow>
        getTableHelper sw rnd = Some mapTableSchema \<longrightarrow>
        Postgres_Insert p (mapTableSchema batchHeader) flattenObject (sink st) = (Some err, w', calls) \<longrightarrow>
          (is_transient err \<longrightarrow>
             queue (process_dequeued sw now now' rnd evt dequeuedTime tokenID st)
               = queue st @ [(evt, now' + 20, tokenID)])
          \<and> (\<not> is_transient err \<longrightarrow>
             fallback_log (process_dequeued sw now now' rnd evt dequeuedTime tokenID st)
               = fallback_log st
                  @ [\<lparr>Event = Serialize sw evt, Error = err, EventID = event_id sw flattenObject\<rparr>]))"
proof (intro conjI)
  show "length (filter (\<lambda>c. c = InsertCall) (snd (snd (Postgres_Insert p tbl ev w)))) \<le> 2"
    by (simp add: Postgres_Insert_def split: prod.splits sum.splits option.splits)
next
  show "EnsureTable (pg_tableHelper p) (pg_name p) tbl w = (Inl e0, w1) \<longrightarrow>
        Postgres_Insert p tbl ev w = (Some e0, w1, [EnsureCall])"
    by (simp add: Postgres_Insert_def)
next
  show "EnsureTable (pg_tableHelper p) (pg_name p) tbl w = (Inr d1, w1) \<longrightarrow>
        (adapter_Insert (pg_adapter p) d1 ev w1 = (None, w2) \<longrightarrow>
           Postgres_Insert p tbl ev w = (None, w2, [EnsureCall, InsertCall]))
        \<and> (adapter_Insert (pg_adapter p) d1 ev w1 = (Some e1, w2) \<longrightarrow>
             (RefreshTableSchema (pg_tableHelper p) (pg_name p) tbl w2 = (Inl e2, w3) \<longrightarrow>
                Postgres_Insert p tbl ev w = (Some e2, w3, [EnsureCall, InsertCall, RefreshCall]))
             \<and> (RefreshTableSchema (pg_tableHelper p) (pg_name p) tbl w2 = (Inr d2, w3) \<longrightarrow>
                  (EnsureTable (pg_tableHelper p) (pg_name p) tbl w3 = (Inl e3, w4) \<longrightarrow>
                     Postgres_Insert p tbl ev w
                       = (Some e3, w4, [EnsureCall, InsertCall, RefreshCall, EnsureCall]))
                  \<and> (EnsureTable (pg_tableHelper p) (pg_name p) tbl w3 = (Inr d3, w4) \<longrightarrow>
                       adapter_Insert (pg_adapter p) d3 ev w4 = (r5, w5) \<longrightarrow>
                       Postgres_Insert p tbl ev w
                         = (r5, w5, [EnsureCall, InsertCall, RefreshCall, EnsureCall, InsertCall]))))"
    by (simp add: Postgres_Insert_def)
next
  show "\<forall>sw now now' rnd evt dequeuedTime tokenID batchHeader flattenObject mapTableSchema st err w' calls.
        streamingStorage sw = postgres_storage p \<longrightarrow>
        \<not> now < dequeuedTime \<longrightarrow>
        ProcessEvent sw evt = Inr (batchHeader, flattenObject) \<longrightarrow>
        Exists batchHeader \<longrightarrow>
        getTableHelper sw rnd = Some mapTableSchema \<longrightarrow>
        Postgres_Insert p (mapTableSchema batchHeader) flattenObject (sink st) = (Some err, w', calls) \<longrightarrow>
          (is_transient err \<longrightarrow>
             queue (process_dequeued sw now now' rnd evt dequeuedTime tokenID st)
               = queue st @ [(evt, now' + 20, tokenID)])
          \<and> (\<not> is_transient err \<longrightarrow>
             fallback_log (process_dequeued sw now now' rnd evt dequeuedTime tokenID st)
               = fallback_log st
                  @ [\<lparr>Event = Serialize sw evt, Error = err, EventID = event_id sw flattenObject\<rparr>])"
  proof (intro allI impI)
    fix sw :: "'a worker" and now now' rnd dequeuedTime :: nat and evt flattenObject :: object
      and tokenID err :: string and batchHeader :: batch_header
      and mapTableSchema :: "batch_header \<Rightarrow> table" and st :: "'a worker_state"
      and w' :: 'a and calls :: "storage_call list"
    assume a: "streamingStorage sw = postgres_storage p" "\<not> now < dequeuedTime"
      "ProcessEvent sw evt = Inr (batchHeader, flattenObject)" "Exists batchHeader"
      "getTableHelper sw rnd = Some mapTableSchema"
      "Postgres_Insert p (mapTableSchema batchHeader) flattenObject (sink st) = (Some err, w', calls)"
    then have ins: "insert_event (streamingStorage sw) (mapTableSchema batchHeader) flattenObject (sink st)
        = (Some err, w')"
      by (simp add: postgres_storage_def)
    from process_dequeued_insert_error [OF a(2,3,4,5) ins, of now' tokenID]
    show "(is_transient err \<longrightarrow>
             queue (process_dequeued sw now now' rnd evt dequeuedTime tokenID st)
               = queue st @ [(evt, now' + 20, tokenID)])
          \<and> (\<not> is_transient err \<longrightarrow>
             fallback_log (process_dequeued sw now now' rnd evt dequeuedTime tokenID st)
               = fallback_log st
                  @ [\<lparr>Event = Serialize sw evt, Error = err, EventID = event_id sw flattenObject\<rparr>])"
      by simp
  qed
qed

theorem postgres_insert_retry_once_witness:
  "Postgres_Insert (flaky_postgres 1 ''column does not exist'' False)
     (plain_table \<lparr>TableName = ''events'', Fields = [(''id'', ''text'')]\<rparr>) [''id'' \<mapsto> Str ''e1''] 0
     = (None, 2, [EnsureCall, InsertCall, RefreshCall, EnsureCall, InsertCall])
   \<and> Postgres_Insert (flaky_postgres 2 ''syntax error'' False)
     (plain_table \<lparr>TableName = ''events'', Fields = [(''id'', ''text'')]\<rparr>) [''id'' \<mapsto> Str ''e1''] 0
     = (Some ''syntax error'', 2, [EnsureCall, InsertCall, RefreshCall, EnsureCall, InsertCall])
   \<and> fallback_log (process_dequeued (flaky_worker 2 ''syntax error'' False) 100 101 7
        [''id'' \<mapsto> Str ''e1''] 0 ''tok'' (idle_state []))
     = [\<lparr>Event = ''{id:e1}'', Error = ''syntax error'', EventID = ''e1''\<rparr>]"
  using postgres_insert_retry_once [where p = "flaky_postgres 1 ''column does not exist'' False"
      and tbl = "plain_table \<lparr>TableName = ''events'', Fields = [(''id'', ''text'')]\<rparr>"
      and ev = "[''id'' \<mapsto> Str ''e1'']" and w = 0
      and ?d1.0 = "plain_table \<lparr>TableName = ''events'', Fields = [(''id'', ''text'')]\<rparr>" and ?w1.0 = 0
      and ?e1.0 = "''column does not exist''" and ?w2.0 = 1
      and ?d2.0 = "plain_table \<lparr>TableName = ''events'', Fields = [(''id'', ''text'')]\<rparr>" and ?w3.0 = 1
      and ?d3.0 = "plain_table \<lparr>TableName = ''events'', Fields = [(''id'', ''text'')]\<rparr>" and ?w4.0 = 1
      and ?r5.0 = None and ?w5.0 = 2]
    postgres_insert_retry_once [where p = "flaky_postgres 2 ''syntax error'' False"
      and tbl = "plain_table \<lparr>TableName = ''events'', Fields = [(''id'', ''text'')]\<rparr>"
      and ev = "[''id'' \<mapsto> Str ''e1'']" and w = 0
      and ?d1.0 = "plain_table \<lparr>TableName = ''events'', Fields = [(''id'', ''text'')]\<rparr>" and ?w1.0 = 0
      and ?e1.0 = "''syntax error''" and ?w2.0 = 1
      and ?d2.0 = "plain_table \<lparr>TableName = ''events'', Fields = [(''id'', ''text'')]\<rparr>" and ?w3.0 = 1
      and ?d3.0 = "plain_table \<lparr>TableName = ''events'', Fields = [(''id'', ''text'')]\<rparr>" and ?w4.0 = 1
      and ?r5.0 = "Some ''syntax error''" and ?w5.0 = 2]
  by (simp add: worker_example_defs)

subsection \<open>Failed events of a batch store\<close>






section \<open>BigQuery batch worker: results\<close>

lemma process_files_spec:
  "loaded (process_files env fs st)
     = loaded st @ map (\<lambda>f. (f, table_of env f)) (filter (loads env) fs)
   \<and> bucket (process_files env fs st)
     = filter (\<lambda>k. \<not> (k \<in> set fs \<and> loads env k \<and> delete_error env k = None)) (bucket st)"
proof (induction fs arbitrary: st)
  case Nil
  then show ?case by simp
next
  case (Cons f fs)
  show ?case
  proof (cases "extractDataFromFileName env f")
    case None
    then have nl: "\<not> loads env f" by (simp add: loads_def)
    have "process_files env (f # fs) st = process_files env fs st" using None by simp
    with Cons.IH [of st] nl show ?thesis
      by (auto intro: filter_cong)
  next
    case (Some d)
    obtain tableName tokenId rowsCount where d: "d = (tableName, tokenId, rowsCount)"
      by (cases d)
    show ?thesis
    proof (cases "copy_error env f tableName")
      case (Some err)
      with \<open>extractDataFromFileName env f = Some d\<close> d have nl: "\<not> loads env f"
        by (simp add: loads_def)
      have "process_files env (f # fs) st
          = process_files env fs (st\<lparr>bq_error_events := bq_error_events st + rowsCount\<rparr>)"
        using \<open>extractDataFromFileName env f = Some d\<close> d Some by simp
      with Cons.IH [of "st\<lparr>bq_error_events := bq_error_events st + rowsCount\<rparr>"] nl
      show ?thesis by (auto intro: filter_cong)
    next
      case None
      with \<open>extractDataFromFileName env f = Some d\<close> d have l: "loads env f" "table_of env f = tableName"
        by (simp_all add: loads_def table_of_def)
      let ?st1 = "st\<lparr>loaded := loaded st @ [(f, tableName)],
                      bq_success_events := bq_success_events st + rowsCount\<rparr>"
      show ?thesis
      proof (cases "delete_error env f")
        case (Some err)
        have "process_files env (f # fs) st = process_files env fs ?st1"
          using \<open>extractDataFromFileName env f = Some d\<close> d None Some by (simp add: Let_def)
        with Cons.IH [of ?st1] l Some show ?thesis by (auto intro: filter_cong)
      next
        case n: None
        have "process_files env (f # fs) st
            = process_files env fs (?st1\<lparr>bucket := filter (\<lambda>k. k \<noteq> f) (bucket ?st1)\<rparr>)"
          using \<open>extractDataFromFileName env f = Some d\<close> d None n by (simp add: Let_def)
        with Cons.IH [of "?st1\<lparr>bucket := filter (\<lambda>k. k \<noteq> f) (bucket ?st1)\<rparr>"] l n
        show ?thesis by (auto intro: filter_cong)
      qed
    qed
  qed
qed

text \<open>
  C2 (amended). In a turn in which the bucket can be listed, the BigQuery batch worker
  loads every listed file whose name is well formed and whose copy succeeds, whether or
  not the file was loaded before (it reads no status manager), and removes from the
  bucket exactly the files it loaded and could delete. A loaded file that is still in
  the bucket is therefore loaded once more by the next turn.
\<close>

theorem bigquery_batch_loads_every_listed_file:
  assumes "list_error env = None"
  shows "loaded (batch_tick env st)
           = loaded st @ map (\<lambda>f. (f, table_of env f)) (filter (loads env) (bucket st))
       \<and> bucket (batch_tick env st)
           = filter (\<lambda>k. \<not> (loads env k \<and> delete_error env k = None)) (bucket st)
       \<and> (\<forall>f \<in> set (bucket st). loads env f \<longrightarrow>
             count_list (loaded (batch_tick env st)) (f, table_of env f)
               > count_list (loaded st) (f, table_of env f))"
proof -
  have l: "loaded (batch_tick env st)
           = loaded st @ map (\<lambda>f. (f, table_of env f)) (filter (loads env) (bucket st))"
    using assms process_files_spec [of env "bucket st" st] by (simp add: batch_tick_def)
  have b: "bucket (batch_tick env st)
           = filter (\<lambda>k. \<not> (loads env k \<and> delete_error env k = None)) (bucket st)"
    using assms process_files_spec [of env "bucket st" st]
    by (auto simp: batch_tick_def intro: filter_cong)
  have c: "count_list (loaded (batch_tick env st)) (f, table_of env f)
               > count_list (loaded st) (f, table_of env f)"
    if "f \<in> set (bucket st)" "loads env f" for f
  proof -
    from that have "(f, table_of env f) \<in> set (map (\<lambda>f. (f, table_of env f)) (filter (loads env) (bucket st)))"
      by auto
    then have "count_list (map (\<lambda>f. (f, table_of env f)) (filter (loads env) (bucket st))) (f, table_of env f) > 0"
      using count_list_0_iff [of "map (\<lambda>f. (f, table_of env f)) (filter (loads env) (bucket st))"
          "(f, table_of env f)"] by (cases "count_list (map (\<lambda>f. (f, table_of env f))
            (filter (loads env) (bucket st))) (f, table_of env f)") simp_all
    then show ?thesis unfolding l by simp
  qed
  from l b c show ?thesis by blast
qed

theorem bigquery_batch_loads_every_listed_file_witness:
  "loaded (batch_tick (bq_tick_env False)
      \<lparr>bucket = [''users-tok-5-2021-01-01T00-00-00.ndjson''],
       loaded = [(''users-tok-5-2021-01-01T00-00-00.ndjson'', ''users'')], bq_closed = False,
       bq_success_events = 5, bq_error_events = 0\<rparr>)
   = [(''users-tok-5-2021-01-01T00-00-00.ndjson'', ''users''),
      (''users-tok-5-2021-01-01T00-00-00.ndjson'', ''users'')]
   \<and> bucket (batch_tick (bq_tick_env False)
      \<lparr>bucket = [''users-tok-5-2021-01-01T00-00-00.ndjson''],
       loaded = [(''users-tok-5-2021-01-01T00-00-00.ndjson'', ''users'')], bq_closed = False,
       bq_success_events = 5, bq_error_events = 0\<rparr>) = []"
  using bigquery_batch_loads_every_listed_file [where env = "bq_tick_env False"
      and st = "\<lparr>bucket = [''users-tok-5-2021-01-01T00-00-00.ndjson''],
       loaded = [(''users-tok-5-2021-01-01T00-00-00.ndjson'', ''users'')], bq_closed = False,
       bq_success_events = 5, bq_error_events = 0\<rparr>"]
  by (simp add: bq_tick_env_def staged_name_def loads_def table_of_def)

text \<open>
  C2 as stated fails: when the staged object is not deleted after a successful load,
  the next turn loads the same file into the same table again.
\<close>

theorem bigquery_batch_idempotent_counterexample:
  "startBatch [bq_tick_env True, bq_tick_env False]
      \<lparr>bucket = [''users-tok-5-2021-01-01T00-00-00.ndjson''], loaded = [], bq_closed = False,
       bq_success_events = 0, bq_error_events = 0\<rparr>
   = \<lparr>bucket = [],
      loaded = [(''users-tok-5-2021-01-01T00-00-00.ndjson'', ''users''),
                (''users-tok-5-2021-01-01T00-00-00.ndjson'', ''users'')],
      bq_closed = False, bq_success_events = 10, bq_error_events = 0\<rparr>"
  by (simp add: bq_tick_env_def staged_name_def batch_tick_def)


section \<open>Fallback replay: results\<close>





lemma Replay_unlocked:
  assumes "fileName0 \<noteq> []" and "lock_name fileName0 \<notin> file_locks s"
    and "replay_locked env (file_path env fileName0) (lock_name fileName0) destinationID0 rawFile
           (s\<lparr>file_locks := insert (lock_name fileName0) (file_locks s)\<rparr>) = (r, s1)"
  shows "Replay env fileName0 destinationID0 rawFile s
           = (r, s1\<lparr>file_locks := file_locks s1 - {lock_name fileName0}\<rparr>)"
  using assms by (simp add: Replay_def)





lemma replay_locked_staged:
  assumes "resolve_destination destinationID0 fileName = Some destinationID"
    and "destinations s destinationID = Some (Some storage)"
    and "is_staging storage"
  shows "replay_locked env filePath fileName destinationID0 rawFile s =
     (case files s filePath of
        None \<Rightarrow> (Some (ReadError fileName), s)
      | Some b \<Rightarrow> (Some (StagedDestination destinationID), s))"
  using assms by (simp add: replay_locked_def split: option.splits)

text \<open>
  C9. For a destination whose staged flag is set, the loop of the streaming worker
  exits at its first test, with the queue and everything else as they were; and a
  \<^verbatim>\<open>Replay\<close> that resolves to the destination returns an error and leaves the service,
  the sink of the destination included, as it was. When the file name is given, the
  file is not locked and can be read, the error is the one about the staged mode.
\<close>

theorem staged_destination_receives_no_writes:
  "(is_staging (streamingStorage sw) \<longrightarrow> worker_loop sw (reading # readings) st = (Exited, st))
   \<and> (resolve_destination destinationID0 (lock_name fileName0) = Some destinationID \<longrightarrow>
       destinations s destinationID = Some (Some storage) \<longrightarrow>
       is_staging storage \<longrightarrow>
         (\<exists>e. fst (Replay env fileName0 destinationID0 rawFile s) = Some e)
         \<and> snd (Replay env fileName0 destinationID0 rawFile s) = s
         \<and> (fileName0 \<noteq> [] \<and> lock_name fileName0 \<notin> file_locks s
              \<and> files s (file_path env fileName0) \<noteq> None \<longrightarrow>
             fst (Replay env fileName0 destinationID0 rawFile s) = Some (StagedDestination destinationID)))"
proof (intro conjI impI)
  assume "is_staging (streamingStorage sw)"
  then show "worker_loop sw (reading # readings) st = (Exited, st)"
    by (cases reading) simp
next
  assume a: "resolve_destination destinationID0 (lock_name fileName0) = Some destinationID"
    "destinations s destinationID = Some (Some storage)" "is_staging storage"
  let ?f = "lock_name fileName0"
  let ?sl = "s\<lparr>file_locks := insert ?f (file_locks s)\<rparr>"
  have d: "destinations ?sl destinationID = Some (Some storage)" using a(2) by simp
  note rl = replay_locked_staged [OF a(1) d a(3), of env "file_path env fileName0" rawFile]
  have unlocked: "?sl\<lparr>file_locks := file_locks ?sl - {?f}\<rparr> = s" if "?f \<notin> file_locks s"
  proof -
    from that have "insert ?f (file_locks s) - {?f} = file_locks s" by auto
    then show ?thesis by simp
  qed
  have R: "Replay env fileName0 destinationID0 rawFile s =
      (if fileName0 = [] then (Some EmptyFileName, s)
       else if ?f \<in> file_locks s then (Some (BeingProcessed ?f), s)
       else (case files s (file_path env fileName0) of
               None \<Rightarrow> (Some (ReadError ?f), s)
             | Some b \<Rightarrow> (Some (StagedDestination destinationID), s)))"
  proof (cases "fileName0 = [] \<or> ?f \<in> file_locks s")
    case True
    then show ?thesis by (auto simp: Replay_def)
  next
    case False
    then have ne: "fileName0 \<noteq> []" and free: "?f \<notin> file_locks s" by auto
    show ?thesis
    proof (cases "files s (file_path env fileName0)")
      case None
      then have "replay_locked env (file_path env fileName0) ?f destinationID0 rawFile ?sl
          = (Some (ReadError ?f), ?sl)" using rl by simp
      from Replay_unlocked [OF ne free this] unlocked [OF free] None ne free
      show ?thesis by simp
    next
      case (Some b)
      then have "replay_locked env (file_path env fileName0) ?f destinationID0 rawFile ?sl
          = (Some (StagedDestination destinationID), ?sl)" using rl by simp
      from Replay_unlocked [OF ne free this] unlocked [OF free] Some ne free
      show ?thesis by simp
    qed
  qed
  show "\<exists>e. fst (Replay env fileName0 destinationID0 rawFile s) = Some e"
    unfolding R by (simp split: option.splits)
  show "snd (Replay env fileName0 destinationID0 rawFile s) = s"
    unfolding R by (simp split: option.splits)
  show "fst (Replay env fileName0 destinationID0 rawFile s) = Some (StagedDestination destinationID)"
    if "fileName0 \<noteq> [] \<and> lock_name fileName0 \<notin> file_locks s \<and> files s (file_path env fileName0) \<noteq> None"
    unfolding R using that by (auto split: option.splits)
qed

theorem staged_destination_receives_no_writes_witness:
  "worker_loop (flaky_worker 0 ''syntax error'' True) [(100, 101, 7)]
       (idle_state [([''id'' \<mapsto> Str ''e1''], 0, ''tok'')])
     = (Exited, idle_state [([''id'' \<mapsto> Str ''e1''], 0, ''tok'')])
   \<and> Replay example_env failed_file [] False (example_service (flaky_postgres 0 ''syntax error'' True))
     = (Some (StagedDestination ''pg''), example_service (flaky_postgres 0 ''syntax error'' True))"
proof -
  have s: "is_staging (streamingStorage (flaky_worker 0 ''syntax error'' True))"
    by (simp add: worker_example_defs)
  have r: "resolve_destination [] (lock_name failed_file) = Some ''pg''"
    by (simp add: replay_example_defs)
  have d: "destinations (example_service (flaky_postgres 0 ''syntax error'' True)) ''pg''
      = Some (Some (postgres_storage (flaky_postgres 0 ''syntax error'' True)))"
    by (simp add: example_service_def)
  have g: "is_staging (postgres_storage (flaky_postgres 0 ''syntax error'' True))"
    by (simp add: worker_example_defs)
  have c: "failed_file \<noteq> [] \<and> lock_name failed_file
        \<notin> file_locks (example_service (flaky_postgres 0 ''syntax error'' True))
      \<and> files (example_service (flaky_postgres 0 ''syntax error'' True)) (file_path example_env failed_file) \<noteq> None"
    by (simp add: replay_example_defs)
  from staged_destination_receives_no_writes [where sw = "flaky_worker 0 ''syntax error'' True"
      and reading = "(100, 101, 7)" and readings = "[]"
      and st = "idle_state [([''id'' \<mapsto> Str ''e1''], 0, ''tok'')]"
      and ?destinationID0.0 = "[]" and ?fileName0.0 = failed_file and destinationID = "''pg''"
      and s = "example_service (flaky_postgres 0 ''syntax error'' True)"
      and storage = "postgres_storage (flaky_postgres 0 ''syntax error'' True)"
      and env = example_env and rawFile = False] s r d g c
  show ?thesis by (simp add: prod_eq_iff)
qed


end
